theory Spec2Isabelle
  imports Main "HOL-Library.AList" "HOL-Library.Word"
begin

section \<open>Values, rows and the response envelope\<close>

text \<open>
  The service of \<^verbatim>\<open>python-microserver/main.py\<close> moves Python values between an ORM
  and JSON. A value is \<^verbatim>\<open>None\<close>, a scalar, a byte sequence (\<^verbatim>\<open>bytes\<close> or
  \<^verbatim>\<open>bytearray\<close>), a list or a dict with string keys. A dict keeps its keys in insertion
  order, so it is an association list; assigning to a key that exists replaces the value in
  place (\<open>AList.update\<close>).
\<close>

type_synonym bytes = "8 word list"

datatype pyval =
    PNone
  | PBool bool
  | PInt int
  | PStr string
  | PBytes bytes
  | PByteArray bytes
  | PList "pyval list"
  | PDict "(string \<times> pyval) list"

type_synonym dict = "(string \<times> pyval) list"

text \<open>
  A row is an ORM instance: an object whose attributes carry the column values.
  \<^verbatim>\<open>getattr(row, col, None)\<close> reads an attribute and gives the default when it is absent.
\<close>

type_synonym row = "(string \<times> pyval) list"

definition getattr :: "row \<Rightarrow> string \<Rightarrow> pyval \<Rightarrow> pyval" where
  "getattr obj attr dflt = (case map_of obj attr of None \<Rightarrow> dflt | Some v \<Rightarrow> v)"

definition hasattr :: "row \<Rightarrow> string \<Rightarrow> bool" where
  "hasattr obj attr = (map_of obj attr \<noteq> None)"

definition setattr :: "row \<Rightarrow> string \<Rightarrow> pyval \<Rightarrow> row" where
  "setattr obj attr v = AList.update attr v obj"

text \<open>\<^verbatim>\<open>isinstance(value, (bytes, bytearray))\<close> and the payload of such a value.\<close>

fun isinstance_bytes :: "pyval \<Rightarrow> bool" where
  "isinstance_bytes (PBytes b) = True"
| "isinstance_bytes (PByteArray b) = True"
| "isinstance_bytes v = False"

fun payload :: "pyval \<Rightarrow> bytes" where
  "payload (PBytes b) = b"
| "payload (PByteArray b) = b"
| "payload v = []"

text \<open>
  \<^verbatim>\<open>serialize_row\<close> (main.py, lines 33-44). The loop over \<^verbatim>\<open>columns\<close> is the recursion
  \<open>serialize_loop\<close>, with the dict under construction as accumulator.
  \<^verbatim>\<open>value.decode('utf-8', errors='ignore')\<close> is the codec of the Python runtime; it is the
  parameter \<open>dec\<close>, a total function since the \<^verbatim>\<open>ignore\<close> handler never raises.
\<close>

fun serialize_loop :: "(bytes \<Rightarrow> string) \<Rightarrow> row \<Rightarrow> string list \<Rightarrow> dict \<Rightarrow> dict" where
  "serialize_loop dec r [] result = result"
| "serialize_loop dec r (col # cols) result =
     (let v = getattr r col PNone in
      serialize_loop dec r cols
        (if v = PNone then AList.update col PNone result
         else if isinstance_bytes v then AList.update col (PStr (dec (payload v))) result
         else AList.update col v result))"

definition serialize_row :: "(bytes \<Rightarrow> string) \<Rightarrow> row \<Rightarrow> string list \<Rightarrow> dict" where
  "serialize_row dec r cols = serialize_loop dec r cols []"

section \<open>Exceptions and responses\<close>

text \<open>
  \<^verbatim>\<open>GenericResponse\<close> (schemas.py, lines 9-16): the envelope every endpoint returns on
  success; \<^verbatim>\<open>data\<close> and \<^verbatim>\<open>error\<close> default to \<^verbatim>\<open>None\<close>.
\<close>

record GenericResponse =
  success :: bool
  message :: string
  data :: "pyval option"
  error :: "string option"

text \<open>
  \<^verbatim>\<open>HTTPException(status_code=..., detail=...)\<close>. An endpoint that raises it does not
  return an envelope: the raised exception, with its status code and detail, is the outcome.
\<close>

record HTTPException =
  status_code :: nat
  detail :: string

text \<open>
  Inside a \<^verbatim>\<open>try\<close> block two kinds of exception occur: an \<^verbatim>\<open>HTTPException\<close> the
  endpoint raised itself, and any other \<^verbatim>\<open>Exception\<close> raised by the ORM, the inspector
  or the session, of which the endpoints use only \<^verbatim>\<open>str(e)\<close>.
\<close>

datatype exn = HTTPError HTTPException | OtherError string

text \<open>Rendering for the f-strings: \<^verbatim>\<open>'{name}'\<close> and \<^verbatim>\<open>{len(xs)}\<close>.\<close>

definition quoted :: "string \<Rightarrow> string" where
  "quoted s = [CHR 0x27] @ s @ [CHR 0x27]"

fun str_nat :: "nat \<Rightarrow> string" where
  "str_nat n =
     (if n < 10 then [''0123456789'' ! n]
      else str_nat (n div 10) @ [''0123456789'' ! (n mod 10)])"

fun str_exn :: "exn \<Rightarrow> string" where
  "str_exn (OtherError m) = m"
| "str_exn (HTTPError h) = str_nat (status_code h) @ '': '' @ detail h"

section \<open>The database, the session and the collaborators\<close>

text \<open>
  The database holds, for every table, its rows in the order a plain \<^verbatim>\<open>SELECT\<close> yields
  them. The session (\<^verbatim>\<open>SessionLocal\<close>, created with \<^verbatim>\<open>autoflush=False\<close>) collects
  the changes of the current transaction as a list of pending operations; a row is identified
  by its position in its table. \<^verbatim>\<open>commit\<close> applies the pending operations to the
  database, \<^verbatim>\<open>rollback\<close> discards them. The store keeps rows as they are written: column
  defaults and triggers of the database server are not modelled.
\<close>

type_synonym database = "string \<Rightarrow> row list"

datatype dbop = Insert string row | Update string nat row | Remove string nat

fun apply_dbop :: "dbop \<Rightarrow> database \<Rightarrow> database" where
  "apply_dbop (Insert t r) db = db(t := db t @ [r])"
| "apply_dbop (Update t i r) db = db(t := (db t)[i := r])"
| "apply_dbop (Remove t i) db = db(t := take i (db t) @ drop (Suc i) (db t))"

text \<open>
  Every call into SQLAlchemy is recorded in a trace, so that "before any query" is a
  statement about the trace.
\<close>

datatype op =
    GetTableNames | Reflect | GetColumns | GetPkConstraint | GetForeignKeys
  | QueryAll | QueryFirst | Construct | SessionAdd | SessionDelete
  | Commit | Refresh | Rollback

record world =
  AVAILABLE_TABLES :: "string list"
  store :: database
  pending :: "dbop list"
  trace :: "op list"

text \<open>
  What lies outside the repository is a parameter of the model: the catalog the inspector
  reads, the classes \<^verbatim>\<open>automap_base().prepare\<close> generates, which collaborator calls
  raise (and with which text), the UTF-8 codec and \<^verbatim>\<open>str()\<close> of a record id.
\<close>

record column =
  col_name :: string
  col_info :: dict

record env =
  table_names :: "string list"
  columns :: "string \<Rightarrow> column list"
  pk_constraint :: "string \<Rightarrow> string list option"
  foreign_keys :: "string \<Rightarrow> pyval"
  automap_classes :: "string list"
  fault :: "op \<Rightarrow> string option"
  utf8_ignore :: "bytes \<Rightarrow> string"
  py_str :: "pyval \<Rightarrow> string"

type_synonym 'a action = "world \<Rightarrow> (exn + 'a) \<times> world"

definition return :: "'a \<Rightarrow> 'a action" where
  "return x w = (Inr x, w)"

definition raise :: "exn \<Rightarrow> 'a action" where
  "raise e w = (Inl e, w)"

definition bind :: "'a action \<Rightarrow> ('a \<Rightarrow> 'b action) \<Rightarrow> 'b action" where
  "bind m f w = (case m w of (Inl e, w') \<Rightarrow> (Inl e, w') | (Inr x, w') \<Rightarrow> f x w')"

text \<open>
  A collaborator call: it is recorded, then it either raises (when the environment says so)
  or computes its result from the world.
\<close>

definition call :: "env \<Rightarrow> op \<Rightarrow> (world \<Rightarrow> 'a \<times> world) \<Rightarrow> 'a action" where
  "call e c f w =
     (let w1 = w\<lparr>trace := trace w @ [c]\<rparr> in
      case fault e c of
        Some msg \<Rightarrow> (Inl (OtherError msg), w1)
      | None \<Rightarrow> (case f w1 of (x, w2) \<Rightarrow> (Inr x, w2)))"

text \<open>models.py: \<^verbatim>\<open>get_all_tables\<close> (lines 28-33) and \<^verbatim>\<open>get_model_class\<close> (lines 36-47).
  The class generated for a table stands for the table, so it is modelled by the table's name;
  \<^verbatim>\<open>getattr(AutoBase.classes, table_name, None)\<close> is \<^verbatim>\<open>None\<close> for a table automap
  generated no class for.\<close>

definition get_all_tables :: "env \<Rightarrow> string list action" where
  "get_all_tables e = call e GetTableNames (\<lambda>w. (table_names e, w))"

definition get_model_class :: "env \<Rightarrow> string \<Rightarrow> string option action" where
  "get_model_class e table_name =
     call e Reflect
       (\<lambda>w. (if table_name \<in> set (automap_classes e) then Some table_name else None, w))"

text \<open>main.py: \<^verbatim>\<open>get_table_columns\<close> (lines 47-51) and \<^verbatim>\<open>get_primary_keys\<close>
  (lines 54-58); \<^verbatim>\<open>pk.get('constrained_columns', [])\<close> is the empty list when the key is
  absent.\<close>

definition get_table_columns :: "env \<Rightarrow> string \<Rightarrow> string list action" where
  "get_table_columns e table_name =
     bind (call e GetColumns (\<lambda>w. (columns e table_name, w)))
       (\<lambda>cols. return (map col_name cols))"

definition get_primary_keys :: "env \<Rightarrow> string \<Rightarrow> string list action" where
  "get_primary_keys e table_name =
     bind (call e GetPkConstraint (\<lambda>w. (pk_constraint e table_name, w)))
       (\<lambda>pk. return (case pk of None \<Rightarrow> [] | Some cs \<Rightarrow> cs))"

text \<open>The session and query calls of the endpoints.\<close>

definition query_all :: "env \<Rightarrow> string \<Rightarrow> nat \<Rightarrow> nat \<Rightarrow> row list action" where
  \<comment> \<open>\<^verbatim>\<open>db.query(model_class).offset(skip).limit(limit).all()\<close>\<close>
  "query_all e model_class skip limit =
     call e QueryAll (\<lambda>w. (take limit (drop skip (store w model_class)), w))"

definition query_first :: "env \<Rightarrow> string \<Rightarrow> string \<Rightarrow> pyval \<Rightarrow> (nat \<times> row) option action" where
  \<comment> \<open>\<^verbatim>\<open>db.query(model_class).filter_by(**{column: record_id}).first()\<close>: the first row
      whose \<open>column\<close> equals the id, with its position\<close>
  "query_first e model_class col record_id =
     call e QueryFirst
       (\<lambda>w. (List.find (\<lambda>(i, r). map_of r col = Some record_id)
                 (List.enumerate 0 (store w model_class)), w))"

definition construct :: "env \<Rightarrow> string \<Rightarrow> dict \<Rightarrow> row action" where
  \<comment> \<open>\<^verbatim>\<open>model_class(**item_data)\<close>: the keyword arguments become the attributes\<close>
  "construct e model_class item_data = call e Construct (\<lambda>w. (item_data, w))"

definition session_add :: "env \<Rightarrow> string \<Rightarrow> row \<Rightarrow> nat action" where
  \<comment> \<open>\<^verbatim>\<open>db.add(new_item)\<close>; the result is the position the new row takes on commit\<close>
  "session_add e model_class r =
     call e SessionAdd
       (\<lambda>w. (length (store w model_class), w\<lparr>pending := pending w @ [Insert model_class r]\<rparr>))"

definition session_dirty :: "string \<Rightarrow> nat \<Rightarrow> row \<Rightarrow> unit action" where
  \<comment> \<open>the unit of work notes the attributes assigned to a loaded instance\<close>
  "session_dirty model_class i r w =
     (Inr (), w\<lparr>pending := pending w @ [Update model_class i r]\<rparr>)"

definition session_delete :: "env \<Rightarrow> string \<Rightarrow> nat \<Rightarrow> unit action" where
  \<comment> \<open>\<^verbatim>\<open>db.delete(item)\<close>\<close>
  "session_delete e model_class i =
     call e SessionDelete (\<lambda>w. ((), w\<lparr>pending := pending w @ [Remove model_class i]\<rparr>))"

definition session_commit :: "env \<Rightarrow> unit action" where
  \<comment> \<open>\<^verbatim>\<open>db.commit()\<close>\<close>
  "session_commit e =
     call e Commit (\<lambda>w. ((), w\<lparr>store := fold apply_dbop (pending w) (store w), pending := []\<rparr>))"

definition session_refresh :: "env \<Rightarrow> string \<Rightarrow> nat \<Rightarrow> row action" where
  \<comment> \<open>\<^verbatim>\<open>db.refresh(item)\<close>: the row is read again; a row that is gone cannot be refreshed\<close>
  "session_refresh e model_class i =
     bind (call e Refresh (\<lambda>w. (store w model_class, w)))
       (\<lambda>rows. if i < length rows then return (rows ! i)
               else raise (OtherError ''Could not refresh instance''))"

definition session_rollback :: "world \<Rightarrow> world" where
  \<comment> \<open>\<^verbatim>\<open>db.rollback()\<close>\<close>
  "session_rollback w = w\<lparr>pending := [], trace := trace w @ [Rollback]\<rparr>"

section \<open>The endpoints\<close>

text \<open>
  An endpoint takes the environment, its arguments and the world, and yields either the
  \<^verbatim>\<open>HTTPException\<close> it raised or the \<^verbatim>\<open>GenericResponse\<close> it returned, with the world
  it leaves. The two shapes of \<^verbatim>\<open>except\<close> clauses of main.py:
  \<^verbatim>\<open>except HTTPException: raise\<close> followed by
  \<^verbatim>\<open>except Exception as e: raise HTTPException(status_code=500, detail=str(e))\<close> in the
  read endpoints, and the same with \<^verbatim>\<open>db.rollback()\<close> and status 400 in the write
  endpoints. Calls of \<^verbatim>\<open>logger\<close> are left out.
\<close>

type_synonym outcome = "(HTTPException + GenericResponse) \<times> world"

definition table_not_found :: "string \<Rightarrow> HTTPException" where
  "table_not_found table_name =
     \<lparr>status_code = 404, detail = ''Table '' @ quoted table_name @ '' not found''\<rparr>"

definition model_not_loaded :: "string \<Rightarrow> HTTPException" where
  "model_not_loaded table_name =
     \<lparr>status_code = 404,
      detail = ''Could not load model for table '' @ quoted table_name\<rparr>"

definition no_primary_key :: "string \<Rightarrow> HTTPException" where
  "no_primary_key table_name =
     \<lparr>status_code = 400,
      detail = ''Table '' @ quoted table_name @ '' has no primary key''\<rparr>"

definition ok :: "string \<Rightarrow> pyval \<Rightarrow> GenericResponse" where
  \<comment> \<open>\<^verbatim>\<open>GenericResponse(success=True, message=..., data=...)\<close>\<close>
  "ok msg d = \<lparr>success = True, message = msg, data = Some d, error = None\<rparr>"

definition except_500 :: "GenericResponse action \<Rightarrow> world \<Rightarrow> outcome" where
  "except_500 body w =
     (case body w of
        (Inr r, w') \<Rightarrow> (Inr r, w')
      | (Inl (HTTPError h), w') \<Rightarrow> (Inl h, w')
      | (Inl (OtherError m), w') \<Rightarrow> (Inl \<lparr>status_code = 500, detail = m\<rparr>, w'))"

definition except_rollback_400 :: "GenericResponse action \<Rightarrow> world \<Rightarrow> outcome" where
  "except_rollback_400 body w =
     (case body w of
        (Inr r, w') \<Rightarrow> (Inr r, w')
      | (Inl (HTTPError h), w') \<Rightarrow> (Inl h, w')
      | (Inl (OtherError m), w') \<Rightarrow>
          (Inl \<lparr>status_code = 400, detail = m\<rparr>, session_rollback w'))"

text \<open>\<^verbatim>\<open>startup_event\<close> (lines 61-70): the failure of \<^verbatim>\<open>get_all_tables\<close> is caught and
  logged, and the global keeps the value it had.\<close>

definition initial_tables :: "string list" where
  \<comment> \<open>line 30: \<^verbatim>\<open>AVAILABLE_TABLES = []\<close>\<close>
  "initial_tables = []"

definition startup_event :: "env \<Rightarrow> world \<Rightarrow> (exn + unit) \<times> world" where
  "startup_event e w =
     (case get_all_tables e w of
        (Inr ts, w') \<Rightarrow> (Inr (), w'\<lparr>AVAILABLE_TABLES := ts\<rparr>)
      | (Inl ex, w') \<Rightarrow> (Inr (), w'))"

definition API_VERSION :: string where
  "API_VERSION = ''1.0.0''"

definition root :: "world \<Rightarrow> outcome" where
  "root w =
     (Inr (ok ''Northwind Microserver API is running''
             (PDict [(''version'', PStr API_VERSION),
                     (''tables'', PList (map PStr (AVAILABLE_TABLES w)))])), w)"

definition list_tables :: "world \<Rightarrow> outcome" where
  "list_tables w =
     (Inr (ok (''Found '' @ str_nat (length (AVAILABLE_TABLES w)) @ '' tables'')
             (PDict [(''tables'', PList (map PStr (AVAILABLE_TABLES w)))])), w)"

text \<open>\<^verbatim>\<open>get_table_schema\<close> (lines 93-116). Its only \<^verbatim>\<open>except\<close> clause catches every
  \<^verbatim>\<open>Exception\<close>.\<close>

definition column_dict :: "column \<Rightarrow> pyval" where
  "column_dict c = PDict ((''name'', PStr (col_name c)) # col_info c)"

definition get_table_schema_try :: "env \<Rightarrow> string \<Rightarrow> GenericResponse action" where
  "get_table_schema_try e table_name =
     bind (call e GetColumns (\<lambda>w. (columns e table_name, w))) (\<lambda>cols.
     bind (call e GetPkConstraint (\<lambda>w. (pk_constraint e table_name, w))) (\<lambda>pk.
     bind (call e GetForeignKeys (\<lambda>w. (foreign_keys e table_name, w))) (\<lambda>fk.
     return (ok (''Schema for table '' @ quoted table_name)
       (PDict [(''table_name'', PStr table_name),
               (''columns'', PList (map column_dict cols)),
               (''primary_keys'',
                  PList (map PStr (case pk of None \<Rightarrow> [] | Some cs \<Rightarrow> cs))),
               (''foreign_keys'', fk)])))))"

definition get_table_schema :: "env \<Rightarrow> string \<Rightarrow> world \<Rightarrow> outcome" where
  "get_table_schema e table_name w =
     (if table_name \<notin> set (AVAILABLE_TABLES w) then (Inl (table_not_found table_name), w)
      else case get_table_schema_try e table_name w of
             (Inr r, w') \<Rightarrow> (Inr r, w')
           | (Inl ex, w') \<Rightarrow> (Inl \<lparr>status_code = 500, detail = str_exn ex\<rparr>, w'))"

text \<open>\<^verbatim>\<open>read_items\<close> (lines 121-160), entered with parameters that passed validation.\<close>

definition read_items_try :: "env \<Rightarrow> string \<Rightarrow> nat \<Rightarrow> nat \<Rightarrow> GenericResponse action" where
  "read_items_try e table_name skip limit =
     bind (get_model_class e table_name) (\<lambda>model_class.
     case model_class of
       None \<Rightarrow> raise (HTTPError (model_not_loaded table_name))
     | Some mc \<Rightarrow>
         bind (query_all e mc skip limit) (\<lambda>items.
         bind (get_table_columns e table_name) (\<lambda>cols.
         return (ok (''Retrieved '' @ str_nat (length items) @ '' records from ''
                       @ quoted table_name)
           (PDict [(''table'', PStr table_name),
                   (''items'', PList (map (\<lambda>item. PDict (serialize_row (utf8_ignore e) item cols))
                                       items)),
                   (''skip'', PInt (int skip)),
                   (''limit'', PInt (int limit))])))))"

definition read_items :: "env \<Rightarrow> string \<Rightarrow> nat \<Rightarrow> nat \<Rightarrow> world \<Rightarrow> outcome" where
  "read_items e table_name skip limit w =
     (if table_name \<notin> set (AVAILABLE_TABLES w) then (Inl (table_not_found table_name), w)
      else except_500 (read_items_try e table_name skip limit) w)"

text \<open>\<^verbatim>\<open>read_item\<close> (lines 163-202).\<close>

definition read_item_try :: "env \<Rightarrow> string \<Rightarrow> pyval \<Rightarrow> GenericResponse action" where
  "read_item_try e table_name record_id =
     bind (get_model_class e table_name) (\<lambda>model_class.
     case model_class of
       None \<Rightarrow> raise (HTTPError (model_not_loaded table_name))
     | Some mc \<Rightarrow>
         bind (get_primary_keys e table_name) (\<lambda>pk_columns.
         case pk_columns of
           [] \<Rightarrow> raise (HTTPError (no_primary_key table_name))
         | pk0 # _ \<Rightarrow>
             bind (query_first e mc pk0 record_id) (\<lambda>item.
             case item of
               None \<Rightarrow>
                 raise (HTTPError
                   \<lparr>status_code = 404,
                    detail = ''Record not found in '' @ quoted table_name @ '' with '' @ pk0
                               @ ''='' @ py_str e record_id\<rparr>)
             | Some (i, r) \<Rightarrow>
                 bind (get_table_columns e table_name) (\<lambda>cols.
                 return (ok (''Retrieved record from '' @ quoted table_name)
                           (PDict (serialize_row (utf8_ignore e) r cols)))))))"

definition read_item :: "env \<Rightarrow> string \<Rightarrow> pyval \<Rightarrow> world \<Rightarrow> outcome" where
  "read_item e table_name record_id w =
     (if table_name \<notin> set (AVAILABLE_TABLES w) then (Inl (table_not_found table_name), w)
      else except_500 (read_item_try e table_name record_id) w)"

text \<open>\<^verbatim>\<open>create_item\<close> (lines 205-242).\<close>

definition create_item_try :: "env \<Rightarrow> string \<Rightarrow> dict \<Rightarrow> GenericResponse action" where
  "create_item_try e table_name item_data =
     bind (get_model_class e table_name) (\<lambda>model_class.
     case model_class of
       None \<Rightarrow> raise (HTTPError (model_not_loaded table_name))
     | Some mc \<Rightarrow>
         bind (construct e mc item_data) (\<lambda>new_item.
         bind (session_add e mc new_item) (\<lambda>i.
         bind (session_commit e) (\<lambda>_.
         bind (session_refresh e mc i) (\<lambda>refreshed.
         bind (get_table_columns e table_name) (\<lambda>cols.
         return (ok (''Record created in '' @ quoted table_name)
                   (PDict (serialize_row (utf8_ignore e) refreshed cols)))))))))"

definition create_item :: "env \<Rightarrow> string \<Rightarrow> dict \<Rightarrow> world \<Rightarrow> outcome" where
  "create_item e table_name item_data w =
     (if table_name \<notin> set (AVAILABLE_TABLES w) then (Inl (table_not_found table_name), w)
      else except_rollback_400 (create_item_try e table_name item_data) w)"

text \<open>\<^verbatim>\<open>update_item\<close> (lines 245-294). The loop of lines 274-276 is \<open>update_fields\<close>.\<close>

fun update_fields :: "row \<Rightarrow> dict \<Rightarrow> row" where
  "update_fields item [] = item"
| "update_fields item ((key, v) # rest) =
     update_fields (if hasattr item key then setattr item key v else item) rest"

definition record_not_found :: "string \<Rightarrow> HTTPException" where
  "record_not_found table_name =
     \<lparr>status_code = 404, detail = ''Record not found in '' @ quoted table_name\<rparr>"

definition update_item_try :: "env \<Rightarrow> string \<Rightarrow> pyval \<Rightarrow> dict \<Rightarrow> GenericResponse action" where
  "update_item_try e table_name record_id item_data =
     bind (get_model_class e table_name) (\<lambda>model_class.
     case model_class of
       None \<Rightarrow> raise (HTTPError (model_not_loaded table_name))
     | Some mc \<Rightarrow>
         bind (get_primary_keys e table_name) (\<lambda>pk_columns.
         case pk_columns of
           [] \<Rightarrow> raise (HTTPError (no_primary_key table_name))
         | pk0 # _ \<Rightarrow>
             bind (query_first e mc pk0 record_id) (\<lambda>item.
             case item of
               None \<Rightarrow> raise (HTTPError (record_not_found table_name))
             | Some (i, r) \<Rightarrow>
                 bind (session_dirty mc i (update_fields r item_data)) (\<lambda>_.
                 bind (session_commit e) (\<lambda>_.
                 bind (session_refresh e mc i) (\<lambda>refreshed.
                 bind (get_table_columns e table_name) (\<lambda>cols.
                 return (ok (''Record updated in '' @ quoted table_name)
                           (PDict (serialize_row (utf8_ignore e) refreshed cols))))))))))"

definition update_item :: "env \<Rightarrow> string \<Rightarrow> pyval \<Rightarrow> dict \<Rightarrow> world \<Rightarrow> outcome" where
  "update_item e table_name record_id item_data w =
     (if table_name \<notin> set (AVAILABLE_TABLES w) then (Inl (table_not_found table_name), w)
      else except_rollback_400 (update_item_try e table_name record_id item_data) w)"

text \<open>\<^verbatim>\<open>delete_item\<close> (lines 297-337).\<close>

definition delete_item_try :: "env \<Rightarrow> string \<Rightarrow> pyval \<Rightarrow> GenericResponse action" where
  "delete_item_try e table_name record_id =
     bind (get_model_class e table_name) (\<lambda>model_class.
     case model_class of
       None \<Rightarrow> raise (HTTPError (model_not_loaded table_name))
     | Some mc \<Rightarrow>
         bind (get_primary_keys e table_name) (\<lambda>pk_columns.
         case pk_columns of
           [] \<Rightarrow> raise (HTTPError (no_primary_key table_name))
         | pk0 # _ \<Rightarrow>
             bind (query_first e mc pk0 record_id) (\<lambda>item.
             case item of
               None \<Rightarrow> raise (HTTPError (record_not_found table_name))
             | Some (i, r) \<Rightarrow>
                 bind (session_delete e mc i) (\<lambda>_.
                 bind (session_commit e) (\<lambda>_.
                 return (ok (''Record deleted from '' @ quoted table_name)
                           (PDict [(''deleted_id'', record_id)])))))))"

definition delete_item :: "env \<Rightarrow> string \<Rightarrow> pyval \<Rightarrow> world \<Rightarrow> outcome" where
  "delete_item e table_name record_id w =
     (if table_name \<notin> set (AVAILABLE_TABLES w) then (Inl (table_not_found table_name), w)
      else except_rollback_400 (delete_item_try e table_name record_id) w)"

section \<open>Requests and responses on the wire\<close>

text \<open>
  The parameters of \<^verbatim>\<open>read_items\<close> are declared \<^verbatim>\<open>skip: int = Query(0, ge=0)\<close> and
  \<^verbatim>\<open>limit: int = Query(10, ge=1, le=100)\<close> (lines 124-125). FastAPI checks the declared
  bounds of the parameters that are present, takes the default for an absent one, and answers
  a request that violates a bound with status 422 itself, naming the parameters at fault; the
  endpoint function is then not entered.
\<close>

definition Query :: "int \<Rightarrow> int option \<Rightarrow> int option \<Rightarrow> int option \<Rightarrow> int option" where
  "Query dflt ge le given =
     (case given of
        None \<Rightarrow> Some dflt
      | Some v \<Rightarrow>
          if (case ge of None \<Rightarrow> True | Some lo \<Rightarrow> lo \<le> v) \<and>
             (case le of None \<Rightarrow> True | Some hi \<Rightarrow> v \<le> hi)
          then Some v else None)"

datatype rejection = RequestValidationError "string list"

definition read_items_request ::
  "env \<Rightarrow> string \<Rightarrow> int option \<Rightarrow> int option \<Rightarrow> world
     \<Rightarrow> (rejection + (HTTPException + GenericResponse)) \<times> world" where
  "read_items_request e table_name skip_given limit_given w =
     (case (Query 0 (Some 0) None skip_given, Query 10 (Some 1) (Some 100) limit_given) of
        (Some skip, Some limit) \<Rightarrow>
          (case read_items e table_name (nat skip) (nat limit) w of (r, w') \<Rightarrow> (Inr r, w'))
      | (None, Some limit) \<Rightarrow> (Inl (RequestValidationError [''skip'']), w)
      | (Some skip, None) \<Rightarrow> (Inl (RequestValidationError [''limit'']), w)
      | (None, None) \<Rightarrow> (Inl (RequestValidationError [''skip'', ''limit'']), w))"

text \<open>
  What the client sees. A returned \<^verbatim>\<open>GenericResponse\<close> is sent with status 200 and its
  four fields as body. main.py registers no exception handler, so a raised
  \<^verbatim>\<open>HTTPException\<close> is answered by FastAPI's default handler: the exception's status code
  and the body \<^verbatim>\<open>{"detail": ...}\<close>.
\<close>

definition of_optional :: "pyval option \<Rightarrow> pyval" where
  "of_optional v = (case v of None \<Rightarrow> PNone | Some x \<Rightarrow> x)"

definition response_status :: "HTTPException + GenericResponse \<Rightarrow> nat" where
  "response_status r = (case r of Inl h \<Rightarrow> status_code h | Inr g \<Rightarrow> 200)"

definition response_body :: "HTTPException + GenericResponse \<Rightarrow> dict" where
  "response_body r =
     (case r of
        Inl h \<Rightarrow> [(''detail'', PStr (detail h))]
      | Inr g \<Rightarrow>
          [(''success'', PBool (success g)),
           (''message'', PStr (message g)),
           (''data'', of_optional (data g)),
           (''error'', of_optional (map_option PStr (error g)))])"

definition envelope_keys :: "string list" where
  "envelope_keys = [''success'', ''message'', ''data'', ''error'']"

section \<open>A sample database\<close>

text \<open>
  A concrete environment and world for the examples: a table \<open>products\<close> with a
  two-column primary key and a table \<open>notes\<close> without a primary key, for which automap
  generates no class. In the examples the codec is the one for 7-bit text, which agrees with
  the UTF-8 codec on byte strings that hold no multi-byte sequence.
\<close>

definition ascii_ignore :: "bytes \<Rightarrow> string" where
  "ascii_ignore bs = map (\<lambda>b. char_of (unat b)) (filter (\<lambda>b. b < 0x80) bs)"

fun sample_str :: "pyval \<Rightarrow> string" where
  "sample_str (PStr s) = s"
| "sample_str (PInt i) = (if i < 0 then ''-'' else []) @ str_nat (nat \<bar>i\<bar>)"
| "sample_str v = ''?''"

definition sample_columns :: "string \<Rightarrow> column list" where
  "sample_columns t =
     (if t = ''products'' then
        [\<lparr>col_name = ''product_id'', col_info = []\<rparr>,
         \<lparr>col_name = ''shop_id'', col_info = []\<rparr>,
         \<lparr>col_name = ''product_name'', col_info = []\<rparr>,
         \<lparr>col_name = ''photo'', col_info = []\<rparr>]
      else if t = ''notes'' then [\<lparr>col_name = ''body'', col_info = []\<rparr>]
      else [])"

definition sample_pk :: "string \<Rightarrow> string list option" where
  "sample_pk t = (if t = ''products'' then Some [''product_id'', ''shop_id''] else Some [])"

definition no_fault :: "op \<Rightarrow> string option" where
  "no_fault c = None"

definition sample_env :: env where
  "sample_env =
     \<lparr>table_names = [''products'', ''notes''],
      columns = sample_columns,
      pk_constraint = sample_pk,
      foreign_keys = (\<lambda>t. PList []),
      automap_classes = [''products''],
      fault = no_fault,
      utf8_ignore = ascii_ignore,
      py_str = sample_str\<rparr>"

definition widget :: row where
  "widget =
     [(''product_id'', PInt 1), (''shop_id'', PInt 7), (''product_name'', PStr ''Widget''),
      (''photo'', PBytes [0x68, 0xFF, 0x69])]"

definition gadget :: row where
  "gadget =
     [(''product_id'', PInt 2), (''shop_id'', PInt 7), (''product_name'', PStr ''Gadget''),
      (''photo'', PNone)]"

definition sample_store :: database where
  "sample_store t = (if t = ''products'' then [widget, gadget] else [])"

definition sample_world :: world where
  "sample_world =
     \<lparr>AVAILABLE_TABLES = [''products'', ''notes''], store = sample_store, pending = [],
      trace = []\<rparr>"

text \<open>The world before \<^verbatim>\<open>startup_event\<close> has run.\<close>

definition fresh_world :: world where
  "fresh_world = \<lparr>AVAILABLE_TABLES = initial_tables, store = sample_store, pending = [], trace = []\<rparr>"

text \<open>Environments in which one collaborator call fails.\<close>

definition unreachable :: "op \<Rightarrow> string option" where
  "unreachable c = (if c = GetTableNames then Some ''Can't connect to MySQL server'' else None)"

definition lost_after_commit :: "op \<Rightarrow> string option" where
  "lost_after_commit c = (if c = Refresh then Some ''MySQL server has gone away'' else None)"

definition all_mapped_env :: env where
  \<comment> \<open>the sample catalog, had automap generated a class for \<open>notes\<close> as well\<close>
  "all_mapped_env = sample_env\<lparr>automap_classes := [''products'', ''notes'']\<rparr>"

definition duplicate_entry :: "op \<Rightarrow> string option" where
  "duplicate_entry c = (if c = Commit then Some ''Duplicate entry'' else None)"

text \<open>
  The two shapes a client can see from an endpoint: the envelope of a returned
  \<^verbatim>\<open>GenericResponse\<close>, with \<^verbatim>\<open>success\<close> set and no \<^verbatim>\<open>error\<close>, or the
  \<^verbatim>\<open>detail\<close> body of a raised \<^verbatim>\<open>HTTPException\<close> with one of the status codes
  main.py uses.
\<close>

definition enveloped_or_raised :: "HTTPException + GenericResponse \<Rightarrow> bool" where
  "enveloped_or_raised r =
     (case r of
        Inr g \<Rightarrow> success g \<and> error g = None \<and> map fst (response_body r) = envelope_keys
      | Inl h \<Rightarrow> status_code h \<in> {400, 404, 500} \<and> map fst (response_body r) = [''detail''])"

section \<open>Unfolding the model\<close>

lemmas monad_defs = bind_def return_def raise_def call_def

lemmas collaborator_defs =
  get_all_tables_def get_model_class_def get_table_columns_def get_primary_keys_def
  query_all_def query_first_def construct_def session_add_def session_dirty_def
  session_delete_def session_commit_def session_refresh_def session_rollback_def

lemmas try_defs =
  get_table_schema_try_def read_items_try_def read_item_try_def create_item_try_def
  update_item_try_def delete_item_try_def

lemmas endpoint_defs =
  get_table_schema_def read_items_def read_item_def create_item_def update_item_def
  delete_item_def except_500_def except_rollback_400_def

lemmas sample_defs =
  sample_env_def sample_world_def sample_store_def sample_columns_def sample_pk_def
  no_fault_def widget_def gadget_def

lemmas message_defs =
  table_not_found_def model_not_loaded_def no_primary_key_def record_not_found_def ok_def
  quoted_def

lemma sample_world_fields:
  "AVAILABLE_TABLES sample_world = [''products'', ''notes'']"
  "store sample_world = sample_store"
  "pending sample_world = []"
  "trace sample_world = []"
  by (simp_all add: sample_world_def)

lemma ascii_ignore_photo: "ascii_ignore [0x68, 0xFF, 0x69] = ''hi''"
  by code_simp

text \<open>The position and the row a lookup returns.\<close>

lemma find_enumerate:
  "List.find (\<lambda>(i, r). P r) (List.enumerate n rows) = Some (i, r)
     \<Longrightarrow> n \<le> i \<and> i - n < length rows \<and> rows ! (i - n) = r \<and> P r"
proof (induction rows arbitrary: n)
  case Nil
  then show ?case by simp
next
  case (Cons a rows)
  show ?case
  proof (cases "P a")
    case True
    with Cons.prems show ?thesis by simp
  next
    case False
    with Cons.prems
    have "List.find (\<lambda>(i, r). P r) (List.enumerate (Suc n) rows) = Some (i, r)"
      by simp
    from Cons.IH [OF this] show ?thesis by (auto simp: nth_Cons')
  qed
qed

lemma find_position:
  assumes "List.find (\<lambda>(i, r). P r) (List.enumerate 0 rows) = Some (i, r)"
  shows "i < length rows" and "rows ! i = r" and "P r"
  using find_enumerate [OF assms] by simp_all

section \<open>The row serializer\<close>

lemma serialize_loop_lookup:
  "map_of (serialize_loop dec r cols acc) c =
     (if c \<in> set cols then
        Some (case map_of r c of
                None \<Rightarrow> PNone
              | Some (PBytes b) \<Rightarrow> PStr (dec b)
              | Some (PByteArray b) \<Rightarrow> PStr (dec b)
              | Some v \<Rightarrow> v)
      else map_of acc c)"
proof (induction cols arbitrary: acc)
  case Nil
  show ?case by simp
next
  case (Cons col cols)
  show ?case
  proof (cases "c \<in> set cols")
    case True
    then show ?thesis by (simp add: Cons.IH Let_def)
  next
    case False
    then show ?thesis
      by (cases "map_of r col"; cases "the (map_of r col)")
         (auto simp: Cons.IH Let_def getattr_def update_conv')
  qed
qed

text \<open>
  C3. For every row and every column list the serializer returns a dict whose keys are the
  listed columns. A column whose attribute is absent (or holds \<^verbatim>\<open>None\<close>) maps to
  \<^verbatim>\<open>None\<close>; a \<^verbatim>\<open>bytes\<close> or \<^verbatim>\<open>bytearray\<close> value maps to the text the
  \<^verbatim>\<open>errors='ignore'\<close> decoder gives for its payload; every other value is passed through
  as it is.
\<close>

theorem serialize_row_rules:
  "map_of (serialize_row dec r cols) c =
     (if c \<in> set cols then
        Some (case map_of r c of
                None \<Rightarrow> PNone
              | Some (PBytes b) \<Rightarrow> PStr (dec b)
              | Some (PByteArray b) \<Rightarrow> PStr (dec b)
              | Some v \<Rightarrow> v)
      else None)"
  by (simp add: serialize_row_def serialize_loop_lookup)

section \<open>Unknown tables\<close>

text \<open>
  C1. For a table name that is not in \<^verbatim>\<open>AVAILABLE_TABLES\<close>, each of the six endpoint
  functions that take a table name (schema, list, get, create, update, delete) raises
  \<^verbatim>\<open>HTTPException(404)\<close> with the detail "Table '...' not found" and leaves the world as
  it was: the trace is unchanged, so neither the model class was resolved nor any query,
  inspection or session call was made. (The list endpoint is entered with parameters that
  passed the declared bounds; a request that violates them is answered before the function
  runs, see \<open>read_items_request\<close>.)
\<close>

theorem unknown_table_404:
  assumes "table_name \<notin> set (AVAILABLE_TABLES w)"
  shows "get_table_schema e table_name w = (Inl (table_not_found table_name), w)
       \<and> read_items e table_name skip limit w = (Inl (table_not_found table_name), w)
       \<and> read_item e table_name record_id w = (Inl (table_not_found table_name), w)
       \<and> create_item e table_name item_data w = (Inl (table_not_found table_name), w)
       \<and> update_item e table_name record_id item_data w = (Inl (table_not_found table_name), w)
       \<and> delete_item e table_name record_id w = (Inl (table_not_found table_name), w)
       \<and> response_status (Inl (table_not_found table_name)) = 404"
  using assms by (simp add: endpoint_defs response_status_def table_not_found_def)

theorem unknown_table_404_witness:
  "''ghost'' \<notin> set (AVAILABLE_TABLES sample_world)
   \<and> get_table_schema sample_env ''ghost'' sample_world
       = (Inl (table_not_found ''ghost''), sample_world)
   \<and> read_items sample_env ''ghost'' 0 10 sample_world
       = (Inl (table_not_found ''ghost''), sample_world)
   \<and> read_item sample_env ''ghost'' (PInt 1) sample_world
       = (Inl (table_not_found ''ghost''), sample_world)
   \<and> create_item sample_env ''ghost'' [] sample_world
       = (Inl (table_not_found ''ghost''), sample_world)
   \<and> update_item sample_env ''ghost'' (PInt 1) [] sample_world
       = (Inl (table_not_found ''ghost''), sample_world)
   \<and> delete_item sample_env ''ghost'' (PInt 1) sample_world
       = (Inl (table_not_found ''ghost''), sample_world)
   \<and> detail (table_not_found ''ghost'') = ''Table 'ghost' not found''"
proof -
  have unknown: "''ghost'' \<notin> set (AVAILABLE_TABLES sample_world)"
    by (simp add: sample_world_def)
  show ?thesis
    using unknown unknown_table_404 [OF unknown, of sample_env 0 10 "PInt 1" "[]"]
    by (simp add: table_not_found_def quoted_def)
qed

section \<open>The shape of responses\<close>

text \<open>
  The claim C2 that every response, failure included, carries the envelope does not hold:
  an endpoint reports a failure by raising \<^verbatim>\<open>HTTPException\<close>, and the body sent for it
  is \<^verbatim>\<open>{"detail": ...}\<close>. Asking for a record that does not exist is an example.
\<close>

theorem failure_body_counterexample:
  "response_status (fst (read_item sample_env ''products'' (PInt 9) sample_world)) = 404
   \<and> response_body (fst (read_item sample_env ''products'' (PInt 9) sample_world))
       = [(''detail'', PStr ''Record not found in 'products' with product_id=9'')]
   \<and> map fst (response_body (fst (read_item sample_env ''products'' (PInt 9) sample_world)))
       \<noteq> envelope_keys"
  by (simp add: sample_defs read_item_def except_500_def read_item_try_def monad_defs
      collaborator_defs message_defs Let_def response_status_def response_body_def
      envelope_keys_def)

lemma root_shape: "enveloped_or_raised (fst (root w))"
  by (simp add: enveloped_or_raised_def root_def ok_def response_body_def envelope_keys_def)

lemma list_tables_shape: "enveloped_or_raised (fst (list_tables w))"
  by (simp add: enveloped_or_raised_def list_tables_def ok_def response_body_def envelope_keys_def)

lemma get_table_schema_shape: "enveloped_or_raised (fst (get_table_schema e t w))"
  by (auto simp: enveloped_or_raised_def response_body_def envelope_keys_def endpoint_defs try_defs monad_defs
      message_defs Let_def split: option.splits)

lemma read_items_shape: "enveloped_or_raised (fst (read_items e t skip limit w))"
  by (auto simp: enveloped_or_raised_def response_body_def envelope_keys_def endpoint_defs try_defs monad_defs
      collaborator_defs message_defs Let_def split: option.splits)

lemma read_item_shape: "enveloped_or_raised (fst (read_item e t record_id w))"
  by (auto simp: enveloped_or_raised_def response_body_def envelope_keys_def endpoint_defs try_defs monad_defs
      collaborator_defs message_defs Let_def split: option.splits list.splits)

lemma create_item_shape: "enveloped_or_raised (fst (create_item e t item_data w))"
  by (auto simp: enveloped_or_raised_def response_body_def envelope_keys_def endpoint_defs try_defs monad_defs
      collaborator_defs message_defs Let_def split: option.splits)

lemma update_item_shape: "enveloped_or_raised (fst (update_item e t record_id item_data w))"
  by (auto simp: enveloped_or_raised_def response_body_def envelope_keys_def endpoint_defs try_defs monad_defs
      collaborator_defs message_defs Let_def split: option.splits list.splits)

lemma delete_item_shape: "enveloped_or_raised (fst (delete_item e t record_id w))"
  by (auto simp: enveloped_or_raised_def response_body_def envelope_keys_def endpoint_defs try_defs monad_defs
      collaborator_defs message_defs Let_def split: option.splits list.splits)

text \<open>
  C2, amended. Whatever the environment, the arguments and the world, an endpoint either
  returns a \<^verbatim>\<open>GenericResponse\<close> with \<^verbatim>\<open>success=True\<close> and no \<^verbatim>\<open>error\<close>, sent as
  the four-field envelope, or raises an \<^verbatim>\<open>HTTPException\<close> with status 400, 404 or 500,
  sent as a body with the single field \<^verbatim>\<open>detail\<close>.
\<close>

theorem envelope_on_success_detail_on_failure:
  "enveloped_or_raised (fst (root w))
   \<and> enveloped_or_raised (fst (list_tables w))
   \<and> enveloped_or_raised (fst (get_table_schema e t w))
   \<and> enveloped_or_raised (fst (read_items e t skip limit w))
   \<and> enveloped_or_raised (fst (read_item e t record_id w))
   \<and> enveloped_or_raised (fst (create_item e t item_data w))
   \<and> enveloped_or_raised (fst (update_item e t record_id item_data w))
   \<and> enveloped_or_raised (fst (delete_item e t record_id w))"
  by (simp only: root_shape list_tables_shape get_table_schema_shape read_items_shape
      read_item_shape create_item_shape update_item_shape delete_item_shape simp_thms)

section \<open>Identity by the first primary key column\<close>

text \<open>
  The second half of C4 does not hold for every known table: the model class is resolved
  before the primary key is looked at, and a table for which automap generated no class is
  answered 404. In the sample database \<open>notes\<close> is known, has no primary key and has no
  class.
\<close>

theorem no_model_counterexample:
  "''notes'' \<in> set (AVAILABLE_TABLES sample_world)
   \<and> get_primary_keys sample_env ''notes'' sample_world
       = (Inr [], sample_world\<lparr>trace := [GetPkConstraint]\<rparr>)
   \<and> fst (read_item sample_env ''notes'' (PInt 1) sample_world)
       = Inl (model_not_loaded ''notes'')
   \<and> fst (update_item sample_env ''notes'' (PInt 1) [] sample_world)
       = Inl (model_not_loaded ''notes'')
   \<and> fst (delete_item sample_env ''notes'' (PInt 1) sample_world)
       = Inl (model_not_loaded ''notes'')
   \<and> response_status (Inl (model_not_loaded ''notes'')) = 404"
  by (simp add: sample_defs endpoint_defs try_defs monad_defs collaborator_defs
      response_status_def model_not_loaded_def Let_def)

lemma find_enumerate_rows:
  "List.find (\<lambda>(i, r). P r) (List.enumerate n rows) =
     (case List.find P rows of
        None \<Rightarrow> None
      | Some r \<Rightarrow> Some (n + length (takeWhile (\<lambda>r. \<not> P r) rows), r))"
  by (induction rows arbitrary: n) (simp_all split: option.splits)

lemma find_first_position:
  "List.find P rows = Some r \<Longrightarrow>
     length (takeWhile (\<lambda>r. \<not> P r) rows) < length rows
     \<and> rows ! length (takeWhile (\<lambda>r. \<not> P r) rows) = r"
  by (induction rows) (auto split: if_splits)

text \<open>
  C4, amended. On a known table whose model class resolves and whose primary key
  inspection completes: when the table has no primary key column, get, update and delete
  raise \<^verbatim>\<open>HTTPException(400)\<close> after the two calls \<open>Reflect\<close> and
  \<open>GetPkConstraint\<close>, so before any row query; when it has primary key columns \<open>c # cs\<close>,
  the three endpoints behave as on a table whose primary key is \<open>c\<close> alone, and (the row
  query not raising) the record they work on is the first row of the table whose column
  \<open>c\<close> equals \<^verbatim>\<open>record_id\<close>: without such a row all three raise 404; with such a row
  \<open>r\<close>, get returns \<open>r\<close> serialized, update writes the body's fields into \<open>r\<close> at its
  position and delete removes the row at that position, whatever the other key columns hold.
\<close>

theorem primary_key_lookup:
  assumes "t \<in> set (AVAILABLE_TABLES w)"
      and "t \<in> set (automap_classes e)"
      and "fault e Reflect = None"
      and "fault e GetPkConstraint = None"
  shows "(pk_constraint e t = None \<or> pk_constraint e t = Some [] \<longrightarrow>
            read_item e t record_id w
              = (Inl (no_primary_key t), w\<lparr>trace := trace w @ [Reflect, GetPkConstraint]\<rparr>)
          \<and> update_item e t record_id item_data w
              = (Inl (no_primary_key t), w\<lparr>trace := trace w @ [Reflect, GetPkConstraint]\<rparr>)
          \<and> delete_item e t record_id w
              = (Inl (no_primary_key t), w\<lparr>trace := trace w @ [Reflect, GetPkConstraint]\<rparr>)
          \<and> response_status (Inl (no_primary_key t)) = 400)
       \<and> (pk_constraint e t = Some (c # cs) \<longrightarrow>
            read_item e t record_id w
              = read_item (e\<lparr>pk_constraint := (pk_constraint e)(t := Some [c])\<rparr>) t
                  record_id w
          \<and> update_item e t record_id item_data w
              = update_item (e\<lparr>pk_constraint := (pk_constraint e)(t := Some [c])\<rparr>) t
                  record_id item_data w
          \<and> delete_item e t record_id w
              = delete_item (e\<lparr>pk_constraint := (pk_constraint e)(t := Some [c])\<rparr>) t
                  record_id w)
       \<and> (pk_constraint e t = Some (c # cs) \<and> fault e QueryFirst = None
            \<and> List.find (\<lambda>r. map_of r c = Some record_id) (store w t) = None \<longrightarrow>
            read_item e t record_id w
              = (Inl \<lparr>status_code = 404,
                      detail = ''Record not found in '' @ quoted t @ '' with '' @ c @ ''=''
                                 @ py_str e record_id\<rparr>,
                 w\<lparr>trace := trace w @ [Reflect, GetPkConstraint, QueryFirst]\<rparr>)
          \<and> update_item e t record_id item_data w
              = (Inl (record_not_found t),
                 w\<lparr>trace := trace w @ [Reflect, GetPkConstraint, QueryFirst]\<rparr>)
          \<and> delete_item e t record_id w
              = (Inl (record_not_found t),
                 w\<lparr>trace := trace w @ [Reflect, GetPkConstraint, QueryFirst]\<rparr>))
       \<and> (pk_constraint e t = Some (c # cs) \<and> fault e QueryFirst = None
            \<and> List.find (\<lambda>r. map_of r c = Some record_id) (store w t) = Some r
            \<and> fault e GetColumns = None \<longrightarrow>
            read_item e t record_id w
              = (Inr (ok (''Retrieved record from '' @ quoted t)
                       (PDict (serialize_row (utf8_ignore e) r (map col_name (columns e t))))),
                 w\<lparr>trace := trace w @ [Reflect, GetPkConstraint, QueryFirst, GetColumns]\<rparr>))
       \<and> (pk_constraint e t = Some (c # cs) \<and> fault e QueryFirst = None
            \<and> List.find (\<lambda>r. map_of r c = Some record_id) (store w t) = Some r
            \<and> fault e Commit = None \<and> fault e Refresh = None \<and> fault e GetColumns = None
            \<and> pending w = [] \<longrightarrow>
            update_item e t record_id item_data w
              = (Inr (ok (''Record updated in '' @ quoted t)
                       (PDict (serialize_row (utf8_ignore e) (update_fields r item_data)
                                 (map col_name (columns e t))))),
                 w\<lparr>store := (store w)
                        (t := (store w t)
                           [length (takeWhile (\<lambda>r. map_of r c \<noteq> Some record_id) (store w t))
                              := update_fields r item_data]),
                    trace := trace w
                      @ [Reflect, GetPkConstraint, QueryFirst, Commit, Refresh, GetColumns]\<rparr>))
       \<and> (pk_constraint e t = Some (c # cs) \<and> fault e QueryFirst = None
            \<and> List.find (\<lambda>r. map_of r c = Some record_id) (store w t) = Some r
            \<and> fault e SessionDelete = None \<and> fault e Commit = None \<and> pending w = [] \<longrightarrow>
            delete_item e t record_id w
              = (Inr (ok (''Record deleted from '' @ quoted t)
                       (PDict [(''deleted_id'', record_id)])),
                 w\<lparr>store := (store w)
                        (t := take (length (takeWhile (\<lambda>r. map_of r c \<noteq> Some record_id)
                                              (store w t))) (store w t)
                              @ drop (Suc (length (takeWhile
                                              (\<lambda>r. map_of r c \<noteq> Some record_id) (store w t))))
                                  (store w t)),
                    trace := trace w
                      @ [Reflect, GetPkConstraint, QueryFirst, SessionDelete, Commit]\<rparr>))"
  (is "?no_key \<and> ?first_only \<and> ?missing \<and> ?get \<and> ?update \<and> ?delete")
proof -
  have 1: ?no_key and 2: ?first_only
    using assms
    by (auto simp: endpoint_defs try_defs monad_defs collaborator_defs response_status_def
        no_primary_key_def Let_def split: option.splits)
  have 3: ?missing
    using assms
    by (simp add: endpoint_defs try_defs monad_defs collaborator_defs Let_def
        find_enumerate_rows)
  have 4: ?get
    using assms
    by (simp add: endpoint_defs try_defs monad_defs collaborator_defs Let_def
        find_enumerate_rows)
  have 5: ?update
  proof (intro impI, elim conjE)
    assume found: "List.find (\<lambda>r. map_of r c = Some record_id) (store w t) = Some r"
      and rest: "pk_constraint e t = Some (c # cs)" "fault e QueryFirst = None"
        "fault e Commit = None" "fault e Refresh = None" "fault e GetColumns = None"
        "pending w = []"
    from find_first_position [OF found]
    have "length (takeWhile (\<lambda>r. map_of r c \<noteq> Some record_id) (store w t))
            < length (store w t)"
      by simp
    with found rest assms
    show "update_item e t record_id item_data w
              = (Inr (ok (''Record updated in '' @ quoted t)
                       (PDict (serialize_row (utf8_ignore e) (update_fields r item_data)
                                 (map col_name (columns e t))))),
                 w\<lparr>store := (store w)
                        (t := (store w t)
                           [length (takeWhile (\<lambda>r. map_of r c \<noteq> Some record_id) (store w t))
                              := update_fields r item_data]),
                    trace := trace w
                      @ [Reflect, GetPkConstraint, QueryFirst, Commit, Refresh, GetColumns]\<rparr>)"
      by (simp add: update_item_def except_rollback_400_def update_item_try_def monad_defs
          collaborator_defs Let_def find_enumerate_rows)
  qed
  have 6: ?delete
    using assms
    by (simp add: delete_item_def except_rollback_400_def delete_item_try_def monad_defs
        collaborator_defs Let_def find_enumerate_rows)
  from 1 2 3 4 5 6 show ?thesis by (intro conjI)
qed

theorem primary_key_lookup_witness:
  "''notes'' \<in> set (AVAILABLE_TABLES sample_world)
   \<and> ''notes'' \<in> set (automap_classes all_mapped_env)
   \<and> pk_constraint all_mapped_env ''notes'' = Some []
   \<and> read_item all_mapped_env ''notes'' (PInt 1) sample_world
       = (Inl (no_primary_key ''notes''), sample_world\<lparr>trace := [Reflect, GetPkConstraint]\<rparr>)
   \<and> delete_item all_mapped_env ''notes'' (PInt 1) sample_world
       = (Inl (no_primary_key ''notes''), sample_world\<lparr>trace := [Reflect, GetPkConstraint]\<rparr>)
   \<and> pk_constraint sample_env ''products'' = Some [''product_id'', ''shop_id'']
   \<and> read_item sample_env ''products'' (PInt 2) sample_world
       = read_item (sample_env\<lparr>pk_constraint := (pk_constraint sample_env)
                                  (''products'' := Some [''product_id''])\<rparr>)
           ''products'' (PInt 2) sample_world
   \<and> List.find (\<lambda>r. map_of r ''shop_id'' = Some (PInt 7)) (store sample_world ''products'')
       = Some widget
   \<and> List.find (\<lambda>r. map_of r ''product_id'' = Some (PInt 7)) (store sample_world ''products'')
       = None
   \<and> read_item sample_env ''products'' (PInt 7) sample_world
       = (Inl \<lparr>status_code = 404,
               detail = ''Record not found in 'products' with product_id=7''\<rparr>,
          sample_world\<lparr>trace := [Reflect, GetPkConstraint, QueryFirst]\<rparr>)
   \<and> delete_item sample_env ''products'' (PInt 7) sample_world
       = (Inl (record_not_found ''products''),
          sample_world\<lparr>trace := [Reflect, GetPkConstraint, QueryFirst]\<rparr>)
   \<and> List.find (\<lambda>r. map_of r ''product_id'' = Some (PInt 2)) (store sample_world ''products'')
       = Some gadget
   \<and> read_item sample_env ''products'' (PInt 2) sample_world
       = (Inr (ok (''Retrieved record from '' @ quoted ''products'')
                (PDict [(''product_id'', PInt 2), (''shop_id'', PInt 7),
                        (''product_name'', PStr ''Gadget''), (''photo'', PNone)])),
          sample_world\<lparr>trace := [Reflect, GetPkConstraint, QueryFirst, GetColumns]\<rparr>)
   \<and> update_item sample_env ''products'' (PInt 2) [(''shop_id'', PInt 8)] sample_world
       = (Inr (ok (''Record updated in '' @ quoted ''products'')
                (PDict [(''product_id'', PInt 2), (''shop_id'', PInt 8),
                        (''product_name'', PStr ''Gadget''), (''photo'', PNone)])),
          sample_world
            \<lparr>store := sample_store(''products'' :=
                        [widget, [(''product_id'', PInt 2), (''shop_id'', PInt 8),
                                  (''product_name'', PStr ''Gadget''), (''photo'', PNone)]]),
             trace := [Reflect, GetPkConstraint, QueryFirst, Commit, Refresh, GetColumns]\<rparr>)
   \<and> delete_item sample_env ''products'' (PInt 2) sample_world
       = (Inr (ok (''Record deleted from '' @ quoted ''products'')
                (PDict [(''deleted_id'', PInt 2)])),
          sample_world
            \<lparr>store := sample_store(''products'' := [widget]),
             trace := [Reflect, GetPkConstraint, QueryFirst, SessionDelete, Commit]\<rparr>)"
  (is "?known \<and> ?mapped \<and> ?none \<and> ?get400 \<and> ?delete400 \<and> ?two \<and> ?first_only
       \<and> ?other_column \<and> ?absent \<and> ?get404 \<and> ?delete404 \<and> ?present \<and> ?get \<and> ?update
       \<and> ?delete")
proof -
  have known: ?known and known': "''products'' \<in> set (AVAILABLE_TABLES sample_world)"
    by (simp_all add: sample_defs)
  have mapped: ?mapped
    and mapped': "''products'' \<in> set (automap_classes sample_env)"
    by (simp_all add: sample_defs all_mapped_env_def)
  have ok1: "fault all_mapped_env Reflect = None" "fault all_mapped_env GetPkConstraint = None"
    and ok2: "fault sample_env Reflect = None" "fault sample_env GetPkConstraint = None"
    by (simp_all add: sample_defs all_mapped_env_def)
  have none: ?none and two: ?two
    by (simp_all add: sample_defs all_mapped_env_def)
  have healthy: "fault sample_env QueryFirst = None" "fault sample_env GetColumns = None"
    "fault sample_env Commit = None" "fault sample_env Refresh = None"
    "fault sample_env SessionDelete = None" "pending sample_world = []"
    by (simp_all add: sample_defs)
  have other: ?other_column and absent: ?absent and present: ?present
    by (simp_all add: sample_defs)
  have rows: "store sample_world ''products'' = [widget, gadget]"
    by (simp add: sample_defs)
  have position: "length (takeWhile (\<lambda>r. map_of r ''product_id'' \<noteq> Some (PInt 2))
                    (store sample_world ''products'')) = 1"
    by (simp add: sample_defs)
  note keyless = primary_key_lookup [OF known mapped ok1, where record_id = "PInt 1"]
  note lookup = primary_key_lookup [OF known' mapped' ok2, where c = "''product_id''"
      and cs = "[''shop_id'']"]
  from keyless [THEN conjunct1] none have 1: ?get400 and 2: ?delete400
    by (simp_all add: sample_world_fields)
  from lookup [where record_id = "PInt 2", THEN conjunct2, THEN conjunct1] two
  have 3: ?first_only by simp
  from lookup [where record_id = "PInt 7", THEN conjunct2, THEN conjunct2, THEN conjunct1]
    two healthy absent
  have 4: ?get404 and 5: ?delete404
    by (simp_all add: sample_world_fields sample_env_def quoted_def)
  from lookup [where record_id = "PInt 2" and r = gadget, THEN conjunct2, THEN conjunct2,
      THEN conjunct2, THEN conjunct1] two healthy present
  have 6: ?get
    by (simp add: sample_world_fields sample_env_def sample_columns_def gadget_def
        serialize_row_def getattr_def)
  from lookup [where record_id = "PInt 2" and r = gadget
      and item_data = "[(''shop_id'', PInt 8)]", THEN conjunct2, THEN conjunct2,
      THEN conjunct2, THEN conjunct2, THEN conjunct1] two healthy present position rows
  have 7: ?update
    by (simp add: sample_world_fields sample_env_def sample_columns_def gadget_def
        serialize_row_def getattr_def hasattr_def setattr_def sample_store_def)
  from lookup [where record_id = "PInt 2" and r = gadget, THEN conjunct2, THEN conjunct2,
      THEN conjunct2, THEN conjunct2, THEN conjunct2] two healthy present position rows
  have 8: ?delete
    by (simp add: sample_world_fields sample_store_def)
  from known mapped none 1 2 two 3 other absent 4 5 present 6 7 8 show ?thesis
    by (intro conjI)
qed

section \<open>Pagination\<close>

text \<open>
  C5. A list request whose \<^verbatim>\<open>skip\<close> is negative or whose \<^verbatim>\<open>limit\<close> lies outside
  1..100 is rejected with a validation error and the world is untouched, so no query ran; the
  values are not clamped. A parameter that is absent counts as \<^verbatim>\<open>skip=0\<close>, respectively
  \<^verbatim>\<open>limit=10\<close>. A request with parameters in range is not rejected: it is answered by
  the endpoint, called with the values as given. On a known table whose model class resolves,
  with collaborators that do not raise, that answer is the success envelope carrying the
  serialized rows \<open>take limit (drop skip rows)\<close> of the table, which are at most \<open>limit\<close>
  many, together with the \<^verbatim>\<open>skip\<close> and \<^verbatim>\<open>limit\<close> that were given; and whenever an
  in-range request succeeds, that page is its data.
\<close>

theorem pagination:
  "((skip_given = Some s \<and> s < 0) \<or> (limit_given = Some l \<and> (l < 1 \<or> 100 < l)) \<longrightarrow>
      isl (fst (read_items_request e t skip_given limit_given w))
      \<and> snd (read_items_request e t skip_given limit_given w) = w)
   \<and> read_items_request e t skip_given limit_given w
       = read_items_request e t
           (Some (case skip_given of None \<Rightarrow> 0 | Some s' \<Rightarrow> s'))
           (Some (case limit_given of None \<Rightarrow> 10 | Some l' \<Rightarrow> l')) w
   \<and> (0 \<le> s \<and> 1 \<le> l \<and> l \<le> 100
        \<and> read_items_request e t (Some s) (Some l) w = (Inr (Inr resp), w') \<longrightarrow>
        data resp =
          Some (PDict
            [(''table'', PStr t),
             (''items'',
                PList (map (\<lambda>item. PDict (serialize_row (utf8_ignore e) item
                                             (map col_name (columns e t))))
                        (take (nat l) (drop (nat s) (store w t))))),
             (''skip'', PInt s),
             (''limit'', PInt l)])
        \<and> length (take (nat l) (drop (nat s) (store w t))) \<le> nat l)
   \<and> (0 \<le> s \<and> 1 \<le> l \<and> l \<le> 100 \<longrightarrow>
        \<not> isl (fst (read_items_request e t (Some s) (Some l) w))
        \<and> read_items_request e t (Some s) (Some l) w
            = (Inr (fst (read_items e t (nat s) (nat l) w)),
               snd (read_items e t (nat s) (nat l) w)))
   \<and> (0 \<le> s \<and> 1 \<le> l \<and> l \<le> 100
        \<and> t \<in> set (AVAILABLE_TABLES w) \<and> t \<in> set (automap_classes e)
        \<and> fault e Reflect = None \<and> fault e QueryAll = None \<and> fault e GetColumns = None \<longrightarrow>
        read_items_request e t (Some s) (Some l) w =
          (Inr (Inr (ok (''Retrieved ''
                          @ str_nat (length (take (nat l) (drop (nat s) (store w t))))
                          @ '' records from '' @ quoted t)
             (PDict
               [(''table'', PStr t),
                (''items'',
                   PList (map (\<lambda>item. PDict (serialize_row (utf8_ignore e) item
                                                (map col_name (columns e t))))
                           (take (nat l) (drop (nat s) (store w t))))),
                (''skip'', PInt s),
                (''limit'', PInt l)]))),
           w\<lparr>trace := trace w @ [Reflect, QueryAll, GetColumns]\<rparr>))"
  (is "?rejected \<and> ?defaults \<and> ?page_if_success \<and> ?accepted \<and> ?page")
proof -
  have 1: ?rejected
    by (auto simp: read_items_request_def Query_def split: option.splits)
  have 2: ?defaults
    by (simp add: read_items_request_def Query_def split: option.splits)
  have 3: ?page_if_success
  proof (intro impI conjI)
    assume a: "0 \<le> s \<and> 1 \<le> l \<and> l \<le> 100
        \<and> read_items_request e t (Some s) (Some l) w = (Inr (Inr resp), w')"
    then have "read_items e t (nat s) (nat l) w = (Inr resp, w')"
      by (auto simp: read_items_request_def Query_def split: prod.splits)
    with a show "data resp =
          Some (PDict
            [(''table'', PStr t),
             (''items'',
                PList (map (\<lambda>item. PDict (serialize_row (utf8_ignore e) item
                                             (map col_name (columns e t))))
                        (take (nat l) (drop (nat s) (store w t))))),
             (''skip'', PInt s),
             (''limit'', PInt l)])"
      by (auto simp: read_items_def except_500_def read_items_try_def monad_defs
          collaborator_defs ok_def Let_def split: option.splits if_splits)
  next
    show "length (take (nat l) (drop (nat s) (store w t))) \<le> nat l" by simp
  qed
  have 4: ?accepted
    by (simp add: read_items_request_def Query_def split: prod.splits)
  have 5: ?page
    by (simp add: read_items_request_def Query_def read_items_def except_500_def
        read_items_try_def monad_defs collaborator_defs Let_def)
  from 1 2 3 4 5 show ?thesis by (intro conjI)
qed

theorem pagination_witness:
  "isl (fst (read_items_request sample_env ''products'' None (Some 101) sample_world))
   \<and> snd (read_items_request sample_env ''products'' None (Some 101) sample_world)
       = sample_world
   \<and> isl (fst (read_items_request sample_env ''products'' (Some (- 1)) None sample_world))
   \<and> store sample_world ''products'' = [widget, gadget]
   \<and> read_items_request sample_env ''products'' (Some 1) (Some 1) sample_world
       = (Inr (Inr (ok (''Retrieved 1 records from '' @ quoted ''products'')
            (PDict [(''table'', PStr ''products''),
                    (''items'', PList [PDict [(''product_id'', PInt 2), (''shop_id'', PInt 7),
                                              (''product_name'', PStr ''Gadget''),
                                              (''photo'', PNone)]]),
                    (''skip'', PInt 1), (''limit'', PInt 1)]))),
          sample_world\<lparr>trace := [Reflect, QueryAll, GetColumns]\<rparr>)
   \<and> read_items_request sample_env ''products'' None None sample_world
       = (Inr (Inr (ok (''Retrieved 2 records from '' @ quoted ''products'')
            (PDict [(''table'', PStr ''products''),
                    (''items'', PList [PDict [(''product_id'', PInt 1), (''shop_id'', PInt 7),
                                              (''product_name'', PStr ''Widget''),
                                              (''photo'', PStr ''hi'')],
                                       PDict [(''product_id'', PInt 2), (''shop_id'', PInt 7),
                                              (''product_name'', PStr ''Gadget''),
                                              (''photo'', PNone)]]),
                    (''skip'', PInt 0), (''limit'', PInt 10)]))),
          sample_world\<lparr>trace := [Reflect, QueryAll, GetColumns]\<rparr>)"
  (is "?too_large \<and> ?untouched \<and> ?negative \<and> ?rows \<and> ?second_page \<and> ?default_page")
proof -
  from pagination [where skip_given = None and limit_given = "Some 101" and l = 101 and s = 0
        and e = sample_env and t = "''products''" and w = sample_world, THEN conjunct1]
  have 1: "?too_large \<and> ?untouched" by simp
  from pagination [where skip_given = "Some (- 1)" and limit_given = None and s = "- 1"
        and l = 1 and e = sample_env and t = "''products''" and w = sample_world,
        THEN conjunct1]
  have 2: ?negative by simp
  have rows: ?rows
    by (simp add: sample_defs)
  have stored: "sample_store ''products'' = [widget, gadget]"
    by (simp add: sample_store_def)
  have healthy: "''products'' \<in> set (AVAILABLE_TABLES sample_world)"
    "''products'' \<in> set (automap_classes sample_env)"
    "fault sample_env Reflect = None" "fault sample_env QueryAll = None"
    "fault sample_env GetColumns = None"
    by (simp_all add: sample_defs)
  have cols: "map col_name (columns sample_env ''products'')
                = [''product_id'', ''shop_id'', ''product_name'', ''photo'']"
    and codec: "utf8_ignore sample_env = ascii_ignore"
    by (simp_all add: sample_env_def sample_columns_def)
  have widget_row: "serialize_row ascii_ignore widget
        [''product_id'', ''shop_id'', ''product_name'', ''photo'']
      = [(''product_id'', PInt 1), (''shop_id'', PInt 7), (''product_name'', PStr ''Widget''),
         (''photo'', PStr ''hi'')]"
    and gadget_row: "serialize_row ascii_ignore gadget
        [''product_id'', ''shop_id'', ''product_name'', ''photo'']
      = [(''product_id'', PInt 2), (''shop_id'', PInt 7), (''product_name'', PStr ''Gadget''),
         (''photo'', PNone)]"
    by (simp_all add: widget_def gadget_def serialize_row_def getattr_def ascii_ignore_photo)
  from pagination [where s = 1 and l = 1 and e = sample_env and t = "''products''"
        and w = sample_world, THEN conjunct2, THEN conjunct2, THEN conjunct2, THEN conjunct2]
    healthy
  have 3: ?second_page
    by (simp add: stored cols codec gadget_row sample_world_fields)
  from pagination [where skip_given = None and limit_given = None
        and e = sample_env and t = "''products''" and w = sample_world,
        THEN conjunct2, THEN conjunct1]
    pagination [where s = 0 and l = 10 and e = sample_env and t = "''products''"
        and w = sample_world, THEN conjunct2, THEN conjunct2, THEN conjunct2, THEN conjunct2]
    healthy
  have 4: ?default_page
    by (simp add: stored cols codec widget_row gadget_row sample_world_fields)
  from 1 2 rows 3 4 show ?thesis by blast
qed

section \<open>Partial update\<close>

lemma hasattr_keys: "hasattr r k \<longleftrightarrow> k \<in> fst ` set r"
  by (simp add: hasattr_def map_of_eq_None_iff)

lemma update_fields_keys: "map fst (update_fields r d) = map fst r"
proof (induction d arbitrary: r)
  case Nil
  show ?case by simp
next
  case (Cons kv d)
  obtain key v where kv: "kv = (key, v)" by (cases kv)
  show ?case
    by (simp add: kv Cons.IH setattr_def hasattr_keys update_keys)
qed

lemma update_fields_lookup:
  "distinct (map fst d) \<Longrightarrow>
   map_of (update_fields r d) k =
     (if k \<in> fst ` set r \<and> k \<in> fst ` set d then map_of d k else map_of r k)"
proof (induction d arbitrary: r)
  case Nil
  show ?case by simp
next
  case (Cons kv d)
  obtain key v where kv: "kv = (key, v)" by (cases kv)
  from Cons.prems kv have fresh: "key \<notin> fst ` set d" and dist: "distinct (map fst d)"
    by auto
  let ?r1 = "if hasattr r key then setattr r key v else r"
  have keys: "fst ` set ?r1 = fst ` set r"
    by (auto simp: setattr_def hasattr_keys dom_update)
  have look: "map_of ?r1 k = (if k = key \<and> key \<in> fst ` set r then Some v else map_of r k)"
    by (simp add: setattr_def hasattr_keys update_conv')
  show ?case
    using fresh by (auto simp add: kv Cons.IH [OF dist] keys look)
qed

text \<open>
  C6. When an update request succeeds, it has found a row \<open>r\<close> at a position \<open>i\<close> of the
  table by the first primary key column, and the database afterwards differs from the one
  before only in that position, which holds \<open>update_fields r item_data\<close>. That row has the
  attributes of \<open>r\<close>, in the same order; an attribute that is also a key of the body has the
  body's value, every other attribute has the value it had in \<open>r\<close>; a key of the body that
  is no attribute of the row adds nothing. The response carries this row, serialized. (The
  body is a dict, so its keys are distinct.)
\<close>

theorem update_is_partial:
  assumes "update_item e t record_id item_data w = (Inr resp, w')"
      and "pending w = []"
      and "distinct (map fst item_data)"
  shows "\<exists>c cs i r.
           pk_constraint e t = Some (c # cs)
         \<and> List.find (\<lambda>(i, r). map_of r c = Some record_id) (List.enumerate 0 (store w t))
             = Some (i, r)
         \<and> store w' = (store w)(t := (store w t)[i := update_fields r item_data])
         \<and> (\<forall>k. map_of (update_fields r item_data) k =
                  (if k \<in> fst ` set r \<and> k \<in> fst ` set item_data then map_of item_data k
                   else map_of r k))
         \<and> map fst (update_fields r item_data) = map fst r
         \<and> data resp = Some (PDict (serialize_row (utf8_ignore e) (update_fields r item_data)
                                       (map col_name (columns e t))))"
  using assms
  by (auto simp: update_item_def except_rollback_400_def update_item_try_def monad_defs
      collaborator_defs ok_def Let_def update_fields_keys update_fields_lookup
      split: option.splits if_splits list.splits dest!: find_position)

lemma rename_gadget:
  "update_item sample_env ''products'' (PInt 2)
     [(''product_name'', PStr ''Gizmo''), (''colour'', PStr ''red'')] sample_world =
   (Inr (ok (''Record updated in '' @ quoted ''products'')
          (PDict [(''product_id'', PInt 2), (''shop_id'', PInt 7),
                  (''product_name'', PStr ''Gizmo''), (''photo'', PNone)])),
    sample_world
      \<lparr>store := sample_store(''products'' :=
                  [widget, [(''product_id'', PInt 2), (''shop_id'', PInt 7),
                            (''product_name'', PStr ''Gizmo''), (''photo'', PNone)]]),
       trace := [Reflect, GetPkConstraint, QueryFirst, Commit, Refresh, GetColumns]\<rparr>)"
  by (simp add: sample_defs update_item_def except_rollback_400_def update_item_try_def
      monad_defs collaborator_defs message_defs Let_def serialize_row_def getattr_def
      hasattr_def setattr_def fun_upd_def)

theorem update_is_partial_witness:
  "pending sample_world = []
   \<and> distinct (map fst [(''product_name'', PStr ''Gizmo''), (''colour'', PStr ''red'')])
   \<and> update_item sample_env ''products'' (PInt 2)
        [(''product_name'', PStr ''Gizmo''), (''colour'', PStr ''red'')] sample_world =
      (Inr (ok (''Record updated in '' @ quoted ''products'')
             (PDict [(''product_id'', PInt 2), (''shop_id'', PInt 7),
                     (''product_name'', PStr ''Gizmo''), (''photo'', PNone)])),
       sample_world
         \<lparr>store := sample_store(''products'' :=
                     [widget, [(''product_id'', PInt 2), (''shop_id'', PInt 7),
                               (''product_name'', PStr ''Gizmo''), (''photo'', PNone)]]),
          trace := [Reflect, GetPkConstraint, QueryFirst, Commit, Refresh, GetColumns]\<rparr>)
   \<and> (\<exists>c cs i r.
         pk_constraint sample_env ''products'' = Some (c # cs)
       \<and> List.find (\<lambda>(i, r). map_of r c = Some (PInt 2))
           (List.enumerate 0 (store sample_world ''products'')) = Some (i, r)
       \<and> store (sample_world
             \<lparr>store := sample_store(''products'' :=
                     [widget, [(''product_id'', PInt 2), (''shop_id'', PInt 7),
                               (''product_name'', PStr ''Gizmo''), (''photo'', PNone)]]),
              trace := [Reflect, GetPkConstraint, QueryFirst, Commit, Refresh, GetColumns]\<rparr>)
           = (store sample_world)(''products'' := (store sample_world ''products'')
               [i := update_fields r
                       [(''product_name'', PStr ''Gizmo''), (''colour'', PStr ''red'')]])
       \<and> (\<forall>k. map_of (update_fields r
                         [(''product_name'', PStr ''Gizmo''), (''colour'', PStr ''red'')]) k =
                (if k \<in> fst ` set r
                    \<and> k \<in> fst ` set [(''product_name'', PStr ''Gizmo''), (''colour'', PStr ''red'')]
                 then map_of [(''product_name'', PStr ''Gizmo''), (''colour'', PStr ''red'')] k
                 else map_of r k))
       \<and> map fst (update_fields r
                     [(''product_name'', PStr ''Gizmo''), (''colour'', PStr ''red'')])
           = map fst r
       \<and> data (ok (''Record updated in '' @ quoted ''products'')
             (PDict [(''product_id'', PInt 2), (''shop_id'', PInt 7),
                     (''product_name'', PStr ''Gizmo''), (''photo'', PNone)]))
           = Some (PDict (serialize_row (utf8_ignore sample_env)
                 (update_fields r
                    [(''product_name'', PStr ''Gizmo''), (''colour'', PStr ''red'')])
                 (map col_name (columns sample_env ''products'')))))"
proof -
  have fresh: "pending sample_world = []"
    by (simp add: sample_world_fields)
  have keys: "distinct (map fst [(''product_name'', PStr ''Gizmo''), (''colour'', PStr ''red'')])"
    by simp
  from fresh keys rename_gadget update_is_partial [OF rename_gadget fresh keys]
  show ?thesis by (intro conjI)
qed

section \<open>Transactions of the write endpoints\<close>

text \<open>
  The claim C7 that a failed write leaves the database unchanged does not hold for a failure
  after the commit: \<^verbatim>\<open>create_item\<close> and \<^verbatim>\<open>update_item\<close> call \<^verbatim>\<open>db.refresh\<close> and
  \<^verbatim>\<open>get_table_columns\<close> after \<^verbatim>\<open>db.commit()\<close>, inside the same \<^verbatim>\<open>try\<close>. When the
  refresh raises, the endpoint rolls back and answers 400, but the row is already in the table.
\<close>

theorem failure_after_commit_counterexample:
  "fst (create_item (sample_env\<lparr>fault := lost_after_commit\<rparr>) ''products''
          [(''product_id'', PInt 3)] sample_world)
     = Inl \<lparr>status_code = 400, detail = ''MySQL server has gone away''\<rparr>
   \<and> trace (snd (create_item (sample_env\<lparr>fault := lost_after_commit\<rparr>) ''products''
          [(''product_id'', PInt 3)] sample_world))
     = [Reflect, Construct, SessionAdd, Commit, Refresh, Rollback]
   \<and> store sample_world ''products'' = [widget, gadget]
   \<and> store (snd (create_item (sample_env\<lparr>fault := lost_after_commit\<rparr>) ''products''
          [(''product_id'', PInt 3)] sample_world)) ''products''
     = [widget, gadget, [(''product_id'', PInt 3)]]"
  by (simp add: sample_world_def sample_env_def sample_store_def lost_after_commit_def
      create_item_def except_rollback_400_def create_item_try_def monad_defs collaborator_defs
      Let_def)

lemma create_item_rollback:
  assumes "t \<in> set (AVAILABLE_TABLES w)" and "pending w = []"
      and "create_item_try e t item_data w = (Inl (OtherError m), w1)"
  shows "create_item e t item_data w
           = (Inl \<lparr>status_code = 400, detail = m\<rparr>, session_rollback w1)"
    and "last (trace w1) \<notin> {Refresh, GetColumns} \<longrightarrow> store w1 = store w"
  using assms
  by (auto simp: create_item_def except_rollback_400_def create_item_try_def monad_defs
      collaborator_defs Let_def split: option.splits if_splits)

lemma update_item_rollback:
  assumes "t \<in> set (AVAILABLE_TABLES w)" and "pending w = []"
      and "update_item_try e t record_id item_data w = (Inl (OtherError m), w1)"
  shows "update_item e t record_id item_data w
           = (Inl \<lparr>status_code = 400, detail = m\<rparr>, session_rollback w1)"
    and "last (trace w1) \<notin> {Refresh, GetColumns} \<longrightarrow> store w1 = store w"
  using assms
  by (auto simp: update_item_def except_rollback_400_def update_item_try_def monad_defs
      collaborator_defs Let_def split: option.splits if_splits list.splits)

lemma delete_item_rollback:
  assumes "t \<in> set (AVAILABLE_TABLES w)" and "pending w = []"
      and "delete_item_try e t record_id w = (Inl (OtherError m), w1)"
  shows "delete_item e t record_id w
           = (Inl \<lparr>status_code = 400, detail = m\<rparr>, session_rollback w1)"
    and "store w1 = store w"
  using assms
  by (auto simp: delete_item_def except_rollback_400_def delete_item_try_def monad_defs
      collaborator_defs Let_def split: option.splits if_splits list.splits)

lemma create_item_commit:
  assumes "t \<in> set (AVAILABLE_TABLES w)" and "pending w = []"
      and "create_item_try e t item_data w = (Inr resp, w1)"
  shows "create_item e t item_data w = (Inr resp, w1)"
    and "trace w1 = trace w @ [Reflect, Construct, SessionAdd, Commit, Refresh, GetColumns]"
    and "pending w1 = []"
    and "store w1 = apply_dbop (Insert t item_data) (store w)"
  using assms
  by (auto simp: create_item_def except_rollback_400_def create_item_try_def monad_defs
      collaborator_defs Let_def split: option.splits if_splits)

lemma update_item_commit:
  assumes "t \<in> set (AVAILABLE_TABLES w)" and "pending w = []"
      and "update_item_try e t record_id item_data w = (Inr resp, w1)"
  shows "update_item e t record_id item_data w = (Inr resp, w1)"
    and "trace w1 = trace w @ [Reflect, GetPkConstraint, QueryFirst, Commit, Refresh, GetColumns]"
    and "pending w1 = []"
    and "\<exists>i r. store w1 = apply_dbop (Update t i r) (store w)"
  using assms
  by (auto simp: update_item_def except_rollback_400_def update_item_try_def monad_defs
      collaborator_defs Let_def split: option.splits if_splits list.splits intro!: exI)

lemma delete_item_commit:
  assumes "t \<in> set (AVAILABLE_TABLES w)" and "pending w = []"
      and "delete_item_try e t record_id w = (Inr resp, w1)"
  shows "delete_item e t record_id w = (Inr resp, w1)"
    and "trace w1 = trace w @ [Reflect, GetPkConstraint, QueryFirst, SessionDelete, Commit]"
    and "pending w1 = []"
    and "\<exists>i. store w1 = apply_dbop (Remove t i) (store w)"
  using assms
  by (auto simp: delete_item_def except_rollback_400_def delete_item_try_def monad_defs
      collaborator_defs Let_def split: option.splits if_splits list.splits intro!: exI)

lemma rollback_fields:
  "trace (session_rollback w) = trace w @ [Rollback]"
  "pending (session_rollback w) = []"
  "store (session_rollback w) = store w"
  by (simp_all add: session_rollback_def)

text \<open>
  C7, amended. A write endpoint runs on a known table with a fresh session. When its
  \<^verbatim>\<open>try\<close> block ends in an exception that is no \<^verbatim>\<open>HTTPException\<close>, the endpoint calls
  \<^verbatim>\<open>db.rollback()\<close> (the last entry of the trace, after the call that raised) and raises
  \<^verbatim>\<open>HTTPException(400)\<close> with the exception's text; nothing stays pending; and if the call
  that raised (the last entry of the trace of the block) is the commit or a call before it,
  the database is the one before the request. For delete that is every failure. When the
  block completes, the commit was called and did not raise, nothing is pending, and the
  database is the old one with the one insert, update or removal applied.
\<close>

theorem write_transaction:
  assumes "t \<in> set (AVAILABLE_TABLES w)" and "pending w = []"
  shows "(create_item_try e t item_data w = (Inl (OtherError m), w1) \<longrightarrow>
            create_item e t item_data w
              = (Inl \<lparr>status_code = 400, detail = m\<rparr>, session_rollback w1)
          \<and> trace (session_rollback w1) = trace w1 @ [Rollback]
          \<and> pending (session_rollback w1) = []
          \<and> (last (trace w1) \<notin> {Refresh, GetColumns}
               \<longrightarrow> store (session_rollback w1) = store w))
       \<and> (update_item_try e t record_id item_data w = (Inl (OtherError m), w1) \<longrightarrow>
            update_item e t record_id item_data w
              = (Inl \<lparr>status_code = 400, detail = m\<rparr>, session_rollback w1)
          \<and> trace (session_rollback w1) = trace w1 @ [Rollback]
          \<and> pending (session_rollback w1) = []
          \<and> (last (trace w1) \<notin> {Refresh, GetColumns}
               \<longrightarrow> store (session_rollback w1) = store w))
       \<and> (delete_item_try e t record_id w = (Inl (OtherError m), w1) \<longrightarrow>
            delete_item e t record_id w
              = (Inl \<lparr>status_code = 400, detail = m\<rparr>, session_rollback w1)
          \<and> trace (session_rollback w1) = trace w1 @ [Rollback]
          \<and> pending (session_rollback w1) = []
          \<and> store (session_rollback w1) = store w)
       \<and> (create_item_try e t item_data w = (Inr resp, w1) \<longrightarrow>
            create_item e t item_data w = (Inr resp, w1)
          \<and> trace w1 = trace w @ [Reflect, Construct, SessionAdd, Commit, Refresh, GetColumns]
          \<and> fault e Commit = None
          \<and> pending w1 = []
          \<and> store w1 = apply_dbop (Insert t item_data) (store w))
       \<and> (update_item_try e t record_id item_data w = (Inr resp, w1) \<longrightarrow>
            update_item e t record_id item_data w = (Inr resp, w1)
          \<and> trace w1
              = trace w @ [Reflect, GetPkConstraint, QueryFirst, Commit, Refresh, GetColumns]
          \<and> fault e Commit = None
          \<and> pending w1 = []
          \<and> (\<exists>i r. store w1 = apply_dbop (Update t i r) (store w)))
       \<and> (delete_item_try e t record_id w = (Inr resp, w1) \<longrightarrow>
            delete_item e t record_id w = (Inr resp, w1)
          \<and> trace w1
              = trace w @ [Reflect, GetPkConstraint, QueryFirst, SessionDelete, Commit]
          \<and> fault e Commit = None
          \<and> pending w1 = []
          \<and> (\<exists>i. store w1 = apply_dbop (Remove t i) (store w)))"
proof -
  have commit_ran: "fault e Commit = None"
    if "create_item_try e t item_data w = (Inr resp, w1)
        \<or> update_item_try e t record_id item_data w = (Inr resp, w1)
        \<or> delete_item_try e t record_id w = (Inr resp, w1)"
    using that
    by (auto simp: create_item_try_def update_item_try_def delete_item_try_def monad_defs
        collaborator_defs Let_def split: option.splits if_splits list.splits)
  show ?thesis
    using create_item_rollback [OF assms] update_item_rollback [OF assms]
      delete_item_rollback [OF assms] create_item_commit [OF assms]
      update_item_commit [OF assms] delete_item_commit [OF assms] commit_ran
    by (simp add: rollback_fields)
qed

lemma duplicate_widget:
  "create_item_try (sample_env\<lparr>fault := duplicate_entry\<rparr>) ''products''
     [(''product_id'', PInt 1)] sample_world =
   (Inl (OtherError ''Duplicate entry''),
    sample_world\<lparr>pending := [Insert ''products'' [(''product_id'', PInt 1)]],
                 trace := [Reflect, Construct, SessionAdd, Commit]\<rparr>)"
  by (simp add: sample_defs duplicate_entry_def create_item_try_def monad_defs collaborator_defs
      Let_def)

lemma remove_widget:
  "delete_item_try sample_env ''products'' (PInt 1) sample_world =
   (Inr (ok (''Record deleted from '' @ quoted ''products'') (PDict [(''deleted_id'', PInt 1)])),
    sample_world\<lparr>store := sample_store(''products'' := [gadget]),
                 trace := [Reflect, GetPkConstraint, QueryFirst, SessionDelete, Commit]\<rparr>)"
  by (simp add: sample_defs delete_item_try_def monad_defs collaborator_defs message_defs
      Let_def fun_upd_def)

theorem write_transaction_witness:
  "''products'' \<in> set (AVAILABLE_TABLES sample_world)
   \<and> pending sample_world = []
   \<and> create_item (sample_env\<lparr>fault := duplicate_entry\<rparr>) ''products''
        [(''product_id'', PInt 1)] sample_world
       = (Inl \<lparr>status_code = 400, detail = ''Duplicate entry''\<rparr>,
          session_rollback
            (sample_world\<lparr>pending := [Insert ''products'' [(''product_id'', PInt 1)]],
                          trace := [Reflect, Construct, SessionAdd, Commit]\<rparr>))
   \<and> store (session_rollback
        (sample_world\<lparr>pending := [Insert ''products'' [(''product_id'', PInt 1)]],
                      trace := [Reflect, Construct, SessionAdd, Commit]\<rparr>))
       = store sample_world
   \<and> delete_item sample_env ''products'' (PInt 1) sample_world
       = (Inr (ok (''Record deleted from '' @ quoted ''products'')
                 (PDict [(''deleted_id'', PInt 1)])),
          sample_world\<lparr>store := sample_store(''products'' := [gadget]),
                       trace := [Reflect, GetPkConstraint, QueryFirst, SessionDelete, Commit]\<rparr>)
   \<and> fault sample_env Commit = None"
  (is "?known \<and> ?fresh \<and> ?refused \<and> ?unchanged \<and> ?deleted \<and> ?committed")
proof -
  have known: ?known and fresh: ?fresh
    by (simp_all add: sample_world_fields)
  have last_call: "last (trace
      (sample_world\<lparr>pending := [Insert ''products'' [(''product_id'', PInt 1)]],
                    trace := [Reflect, Construct, SessionAdd, Commit]\<rparr>))
      \<notin> {Refresh, GetColumns}"
    by simp
  from write_transaction [OF known fresh, THEN conjunct1, rule_format, OF duplicate_widget]
  have 1: ?refused and 2: ?unchanged
    using last_call by simp_all
  from write_transaction [OF known fresh, THEN conjunct2, THEN conjunct2, THEN conjunct2,
      THEN conjunct2, THEN conjunct2, rule_format, OF remove_widget]
  have 3: ?deleted and 4: ?committed
    by simp_all
  from known fresh 1 2 3 4 show ?thesis by blast
qed

section \<open>Errors that are already classified\<close>

text \<open>
  C8. On a known table, an \<^verbatim>\<open>HTTPException\<close> raised inside the \<^verbatim>\<open>try\<close> block of a
  read or write endpoint is the outcome of the endpoint as it is, with its status code and
  detail and with the world the block left: it is not turned into a 500 or a 400, and the
  write endpoints do not roll back for it. The \<^verbatim>\<open>try\<close> block of \<^verbatim>\<open>get_table_schema\<close>,
  the one endpoint whose \<^verbatim>\<open>except\<close> clause catches everything, raises no
  \<^verbatim>\<open>HTTPException\<close>.
\<close>

theorem classified_errors_pass_through:
  assumes "t \<in> set (AVAILABLE_TABLES w)"
  shows "(read_items_try e t skip limit w = (Inl (HTTPError h), w1)
            \<longrightarrow> read_items e t skip limit w = (Inl h, w1))
       \<and> (read_item_try e t record_id w = (Inl (HTTPError h), w1)
            \<longrightarrow> read_item e t record_id w = (Inl h, w1))
       \<and> (create_item_try e t item_data w = (Inl (HTTPError h), w1)
            \<longrightarrow> create_item e t item_data w = (Inl h, w1))
       \<and> (update_item_try e t record_id item_data w = (Inl (HTTPError h), w1)
            \<longrightarrow> update_item e t record_id item_data w = (Inl h, w1))
       \<and> (delete_item_try e t record_id w = (Inl (HTTPError h), w1)
            \<longrightarrow> delete_item e t record_id w = (Inl h, w1))
       \<and> fst (get_table_schema_try e t w) \<noteq> Inl (HTTPError h)"
  using assms
  by (auto simp: endpoint_defs get_table_schema_try_def monad_defs Let_def split: option.splits)

lemma missing_record_read:
  "read_item_try sample_env ''products'' (PInt 9) sample_world =
   (Inl (HTTPError \<lparr>status_code = 404,
                    detail = ''Record not found in 'products' with product_id=9''\<rparr>),
    sample_world\<lparr>trace := [Reflect, GetPkConstraint, QueryFirst]\<rparr>)"
  by (simp add: sample_defs read_item_try_def monad_defs collaborator_defs message_defs Let_def)

lemma missing_record_update:
  "update_item_try sample_env ''products'' (PInt 9) [(''product_name'', PStr ''Gizmo'')]
     sample_world =
   (Inl (HTTPError (record_not_found ''products'')),
    sample_world\<lparr>trace := [Reflect, GetPkConstraint, QueryFirst]\<rparr>)"
  by (simp add: sample_defs update_item_try_def monad_defs collaborator_defs Let_def)

lemma keyless_delete:
  "delete_item_try all_mapped_env ''notes'' (PInt 1) sample_world =
   (Inl (HTTPError (no_primary_key ''notes'')),
    sample_world\<lparr>trace := [Reflect, GetPkConstraint]\<rparr>)"
  by (simp add: sample_defs all_mapped_env_def delete_item_try_def monad_defs collaborator_defs Let_def)

lemma unmapped_create:
  "create_item_try sample_env ''notes'' [(''body'', PStr ''hello'')] sample_world =
   (Inl (HTTPError (model_not_loaded ''notes'')), sample_world\<lparr>trace := [Reflect]\<rparr>)"
  by (simp add: sample_defs create_item_try_def monad_defs collaborator_defs Let_def)

lemma unmapped_list:
  "read_items_try sample_env ''notes'' 0 10 sample_world =
   (Inl (HTTPError (model_not_loaded ''notes'')), sample_world\<lparr>trace := [Reflect]\<rparr>)"
  by (simp add: sample_defs read_items_try_def monad_defs collaborator_defs Let_def)

theorem classified_errors_pass_through_witness:
  "''products'' \<in> set (AVAILABLE_TABLES sample_world)
   \<and> ''notes'' \<in> set (AVAILABLE_TABLES sample_world)
   \<and> read_items sample_env ''notes'' 0 10 sample_world
       = (Inl (model_not_loaded ''notes''), sample_world\<lparr>trace := [Reflect]\<rparr>)
   \<and> read_item sample_env ''products'' (PInt 9) sample_world
       = (Inl \<lparr>status_code = 404,
               detail = ''Record not found in 'products' with product_id=9''\<rparr>,
          sample_world\<lparr>trace := [Reflect, GetPkConstraint, QueryFirst]\<rparr>)
   \<and> create_item sample_env ''notes'' [(''body'', PStr ''hello'')] sample_world
       = (Inl (model_not_loaded ''notes''), sample_world\<lparr>trace := [Reflect]\<rparr>)
   \<and> update_item sample_env ''products'' (PInt 9) [(''product_name'', PStr ''Gizmo'')]
        sample_world
       = (Inl (record_not_found ''products''),
          sample_world\<lparr>trace := [Reflect, GetPkConstraint, QueryFirst]\<rparr>)
   \<and> delete_item all_mapped_env ''notes'' (PInt 1) sample_world
       = (Inl (no_primary_key ''notes''), sample_world\<lparr>trace := [Reflect, GetPkConstraint]\<rparr>)
   \<and> status_code (record_not_found ''products'') = 404
   \<and> status_code (no_primary_key ''notes'') = 400"
  (is "?p \<and> ?n \<and> ?list \<and> ?get \<and> ?create \<and> ?update \<and> ?delete \<and> ?s404 \<and> ?s400")
proof -
  have p: ?p and n: ?n
    by (simp_all add: sample_world_fields)
  note on_products = classified_errors_pass_through [OF p]
  note on_notes = classified_errors_pass_through [OF n]
  from on_notes [THEN conjunct1, rule_format, OF unmapped_list] have 1: ?list .
  from on_products [THEN conjunct2, THEN conjunct1, rule_format, OF missing_record_read]
  have 2: ?get .
  from on_notes [THEN conjunct2, THEN conjunct2, THEN conjunct1, rule_format, OF unmapped_create]
  have 3: ?create .
  from on_products [THEN conjunct2, THEN conjunct2, THEN conjunct2, THEN conjunct1, rule_format,
      OF missing_record_update]
  have 4: ?update .
  from on_notes [THEN conjunct2, THEN conjunct2, THEN conjunct2, THEN conjunct2, THEN conjunct1,
      rule_format, OF keyless_delete]
  have 5: ?delete .
  have 6: ?s404 and 7: ?s400
    by (simp_all add: record_not_found_def no_primary_key_def)
  from p n 1 2 3 4 5 6 7 show ?thesis by blast
qed

section \<open>Startup without a database\<close>

text \<open>
  C9. When \<^verbatim>\<open>get_all_tables\<close> raises at startup, \<^verbatim>\<open>startup_event\<close> returns normally
  (no exception leaves it, so the process goes on), and \<^verbatim>\<open>AVAILABLE_TABLES\<close> keeps its
  initial value, the empty list. In the world it leaves, each of the six endpoints that take a
  table name raises 404 "Table '...' not found" for every table name and whatever the
  database does by then, without changing the world, so the same holds for every later
  request; the two endpoints that take no table name report the empty table list.
\<close>

theorem startup_failure_degrades:
  assumes "fault e GetTableNames = Some msg"
      and "AVAILABLE_TABLES w = initial_tables"
      and "startup_event e w = (r, w1)"
  shows "r = Inr ()
       \<and> AVAILABLE_TABLES w1 = []
       \<and> get_table_schema e' t w1 = (Inl (table_not_found t), w1)
       \<and> read_items e' t skip limit w1 = (Inl (table_not_found t), w1)
       \<and> read_item e' t record_id w1 = (Inl (table_not_found t), w1)
       \<and> create_item e' t item_data w1 = (Inl (table_not_found t), w1)
       \<and> update_item e' t record_id item_data w1 = (Inl (table_not_found t), w1)
       \<and> delete_item e' t record_id w1 = (Inl (table_not_found t), w1)
       \<and> list_tables w1
           = (Inr (ok ''Found 0 tables'' (PDict [(''tables'', PList [])])), w1)
       \<and> snd (root w1) = w1"
proof -
  from assms have w1: "w1 = w\<lparr>trace := trace w @ [GetTableNames]\<rparr>" and r: "r = Inr ()"
    by (auto simp: startup_event_def get_all_tables_def call_def Let_def)
  with assms(2) have empty: "AVAILABLE_TABLES w1 = []"
    by (simp add: initial_tables_def)
  then have "t \<notin> set (AVAILABLE_TABLES w1)" by simp
  then show ?thesis
    using r empty
    by (simp add: endpoint_defs root_def list_tables_def)
qed

lemma failed_startup:
  "startup_event (sample_env\<lparr>fault := unreachable\<rparr>) fresh_world
     = (Inr (), fresh_world\<lparr>trace := [GetTableNames]\<rparr>)"
  by (simp add: sample_defs fresh_world_def unreachable_def startup_event_def
      get_all_tables_def call_def Let_def)

theorem startup_failure_degrades_witness:
  "fault (sample_env\<lparr>fault := unreachable\<rparr>) GetTableNames
     = Some ''Can't connect to MySQL server''
   \<and> AVAILABLE_TABLES fresh_world = initial_tables
   \<and> startup_event (sample_env\<lparr>fault := unreachable\<rparr>) fresh_world
       = (Inr (), fresh_world\<lparr>trace := [GetTableNames]\<rparr>)
   \<and> AVAILABLE_TABLES (fresh_world\<lparr>trace := [GetTableNames]\<rparr>) = []
   \<and> read_items sample_env ''products'' 0 10 (fresh_world\<lparr>trace := [GetTableNames]\<rparr>)
       = (Inl (table_not_found ''products''), fresh_world\<lparr>trace := [GetTableNames]\<rparr>)
   \<and> create_item sample_env ''products'' [(''product_id'', PInt 3)]
        (fresh_world\<lparr>trace := [GetTableNames]\<rparr>)
       = (Inl (table_not_found ''products''), fresh_world\<lparr>trace := [GetTableNames]\<rparr>)
   \<and> detail (table_not_found ''products'') = ''Table 'products' not found''"
  (is "?down \<and> ?initial \<and> ?started \<and> ?empty \<and> ?list \<and> ?create \<and> ?text")
proof -
  have down: ?down
    by (simp add: unreachable_def)
  have initial: ?initial
    by (simp add: fresh_world_def)
  note after = startup_failure_degrades [OF down initial failed_startup,
      where e' = sample_env and t = "''products''" and skip = 0 and limit = 10
        and item_data = "[(''product_id'', PInt 3)]"]
  from after have 1: ?empty and 2: ?list and 3: ?create
    by simp_all
  have 4: ?text
    by (simp add: table_not_found_def quoted_def)
  from down initial failed_startup 1 2 3 4 show ?thesis by blast
qed

section \<open>An update with an empty body\<close>

text \<open>
  C10. Take a table of the discovered list whose model class resolves and whose primary key
  has a first column, a record id for which the lookup by that column finds the row \<open>r\<close>, a
  fresh session and collaborators that do not raise. Then an update with the empty body
  returns the envelope with \<^verbatim>\<open>success=True\<close> (status 200), whose data is \<open>r\<close>
  serialized over the table's columns, and the world afterwards differs from the one before
  only in its trace: the database holds what it held.
\<close>

theorem empty_update_succeeds:
  assumes known: "t \<in> set (AVAILABLE_TABLES w)"
      and mapped: "t \<in> set (automap_classes e)"
      and pk: "pk_constraint e t = Some (c # cs)"
      and found: "List.find (\<lambda>(i, r). map_of r c = Some record_id)
                    (List.enumerate 0 (store w t)) = Some (i, r)"
      and fresh: "pending w = []"
      and healthy: "fault e = no_fault"
  shows "update_item e t record_id [] w =
           (Inr \<lparr>success = True, message = ''Record updated in '' @ quoted t,
                 data = Some (PDict (serialize_row (utf8_ignore e) r
                                       (map col_name (columns e t)))),
                 error = None\<rparr>,
            w\<lparr>trace := trace w
                 @ [Reflect, GetPkConstraint, QueryFirst, Commit, Refresh, GetColumns]\<rparr>)
       \<and> response_status (fst (update_item e t record_id [] w)) = 200
       \<and> store (snd (update_item e t record_id [] w)) = store w"
proof -
  from find_position [OF found] have i: "i < length (store w t)" and r: "store w t ! i = r"
    by simp_all
  then have same: "(store w)(t := (store w t)[i := r]) = store w"
    by (metis fun_upd_triv list_update_id)
  have run: "update_item e t record_id [] w =
           (Inr \<lparr>success = True, message = ''Record updated in '' @ quoted t,
                 data = Some (PDict (serialize_row (utf8_ignore e) r
                                       (map col_name (columns e t)))),
                 error = None\<rparr>,
            w\<lparr>trace := trace w
                 @ [Reflect, GetPkConstraint, QueryFirst, Commit, Refresh, GetColumns]\<rparr>)"
    using known mapped pk found fresh healthy i r same
    by (simp add: update_item_def except_rollback_400_def update_item_try_def ok_def
        monad_defs collaborator_defs no_fault_def Let_def)
  then show ?thesis
    by (simp add: response_status_def)
qed

theorem empty_update_succeeds_witness:
  "''products'' \<in> set (AVAILABLE_TABLES sample_world)
   \<and> ''products'' \<in> set (automap_classes sample_env)
   \<and> pk_constraint sample_env ''products'' = Some [''product_id'', ''shop_id'']
   \<and> List.find (\<lambda>(i, r). map_of r ''product_id'' = Some (PInt 1))
        (List.enumerate 0 (store sample_world ''products'')) = Some (0, widget)
   \<and> pending sample_world = []
   \<and> fault sample_env = no_fault
   \<and> update_item sample_env ''products'' (PInt 1) [] sample_world =
        (Inr \<lparr>success = True, message = ''Record updated in '' @ quoted ''products'',
              data = Some (PDict (serialize_row (utf8_ignore sample_env) widget
                             (map col_name (columns sample_env ''products'')))),
              error = None\<rparr>,
         sample_world\<lparr>trace := trace sample_world
              @ [Reflect, GetPkConstraint, QueryFirst, Commit, Refresh, GetColumns]\<rparr>)
   \<and> serialize_row (utf8_ignore sample_env) widget
        (map col_name (columns sample_env ''products''))
       = [(''product_id'', PInt 1), (''shop_id'', PInt 7), (''product_name'', PStr ''Widget''),
          (''photo'', PStr ''hi'')]"
  (is "?known \<and> ?mapped \<and> ?pk \<and> ?found \<and> ?fresh \<and> ?healthy \<and> ?run \<and> ?data")
proof -
  have known: ?known and fresh: ?fresh
    by (simp_all add: sample_world_fields)
  have mapped: ?mapped and pk: ?pk and healthy: ?healthy
    by (simp_all add: sample_env_def sample_pk_def)
  have found: ?found
    by (simp add: sample_world_fields sample_store_def widget_def)
  from empty_update_succeeds [OF known mapped pk found fresh healthy]
  have run: ?run by (rule conjunct1)
  have data: ?data
    by (simp add: sample_env_def sample_columns_def widget_def serialize_row_def getattr_def
        ascii_ignore_photo)
  from known mapped pk found fresh healthy run data show ?thesis by blast
qed

end
